theory Spec2Isabelle
  imports Main "HOL-Library.Word" "HOL-Library.AList"
begin

unbundle bit_operations_syntax

section \<open>JavaScript values\<close>

text \<open>
  The client of \<^verbatim>\<open>shinemonitor-pwa/js/api.js\<close> works on untyped JavaScript values: the
  session fields start as \<^verbatim>\<open>null\<close>, the server's JSON is read field by field, and
  objects are merged with the spread operator. A value is one of the JSON shapes or
  \<^verbatim>\<open>undefined\<close>. Numbers are the integers (every number the client reads or makes, the
  error code and \<^verbatim>\<open>Date.now()\<close>, is one). An object is the list of its properties in
  insertion order.

  A string is the list of its UTF-16 code units, each written as the bytes of its UTF-8
  form (one to three bytes), so that concatenation is append and an ASCII text is itself.
  A surrogate code unit is the byte \<^verbatim>\<open>ED\<close>, a byte from \<^verbatim>\<open>A0\<close> to \<^verbatim>\<open>BF\<close> and one
  more byte; a character beyond the basic plane is its two surrogates, six bytes.
\<close>

datatype jsval =
    JNull
  | JUndefined
  | JBool bool
  | JNum int
  | JStr string
  | JArr "jsval list"
  | JObj "(string \<times> jsval) list"

type_synonym obj = "(string \<times> jsval) list"

text \<open>Truthiness, as \<^verbatim>\<open>if (v)\<close>, \<^verbatim>\<open>a && b\<close> and \<^verbatim>\<open>a || b\<close> test it.\<close>

fun truthy :: "jsval \<Rightarrow> bool" where
  "truthy JNull = False"
| "truthy JUndefined = False"
| "truthy (JBool b) = b"
| "truthy (JNum n) = (n \<noteq> 0)"
| "truthy (JStr s) = (s \<noteq> [])"
| "truthy (JArr xs) = True"
| "truthy (JObj ps) = True"

text \<open>\<^verbatim>\<open>a || b\<close> and \<^verbatim>\<open>a && b\<close> return one of their operands.\<close>

definition js_or :: "jsval \<Rightarrow> jsval \<Rightarrow> jsval" where
  "js_or a b = (if truthy a then a else b)"

definition js_and :: "jsval \<Rightarrow> jsval \<Rightarrow> jsval" where
  "js_and a b = (if truthy a then b else a)"

text \<open>
  Reading a property \<^verbatim>\<open>v.k\<close> of a value that is neither \<^verbatim>\<open>null\<close> nor
  \<^verbatim>\<open>undefined\<close>: the property of an object, \<^verbatim>\<open>undefined\<close> when the object has none
  of that name or the value is a primitive or an array (the client reads the names
  \<^verbatim>\<open>err\<close>, \<^verbatim>\<open>desc\<close>, \<^verbatim>\<open>dat\<close>, \<^verbatim>\<open>token\<close>, \<^verbatim>\<open>secret\<close> and \<^verbatim>\<open>userid\<close> only).
\<close>

fun property :: "jsval \<Rightarrow> string \<Rightarrow> jsval" where
  "property (JObj ps) k = (case map_of ps k of Some v \<Rightarrow> v | None \<Rightarrow> JUndefined)"
| "property v k = JUndefined"

text \<open>An exception: an \<^verbatim>\<open>Error\<close> object, of which the client reads \<^verbatim>\<open>message\<close> only.\<close>

datatype js_error = Error (error_message: string)

text \<open>
  \<^verbatim>\<open>v.k\<close> in general: a \<^verbatim>\<open>TypeError\<close> on \<^verbatim>\<open>null\<close> and \<^verbatim>\<open>undefined\<close>. The wording of
  its message is the engine's; it is never empty.
\<close>

definition get_member :: "jsval \<Rightarrow> string \<Rightarrow> js_error + jsval" where
  "get_member v k =
     (if v = JNull \<or> v = JUndefined
      then Inl (Error (''Cannot read properties of null (reading '' @ k @ '')''))
      else Inr (property v k))"

text \<open>
  Setting a property keeps the position of a name the object already has and appends a
  new one; \<^verbatim>\<open>{...a, ...b}\<close> sets the properties of \<^verbatim>\<open>a\<close>, then those of \<^verbatim>\<open>b\<close>, on a
  fresh object. The list is the order of insertion; the order of enumeration, which puts
  array indices first, is \<open>own_keys_order\<close> below, applied where the client enumerates
  an object for others to see: in \<^verbatim>\<open>URLSearchParams\<close>.
\<close>

definition assign :: "obj \<Rightarrow> obj \<Rightarrow> obj" where
  "assign target src = foldl (\<lambda>acc (k, v). AList.update k v acc) target src"

definition spread :: "obj \<Rightarrow> obj \<Rightarrow> obj" where
  "spread a b = assign (assign [] a) b"

subsection \<open>Numbers and values as strings\<close>

definition digit_char :: "nat \<Rightarrow> char" where
  "digit_char d = char_of (48 + d)"

fun digits :: "nat \<Rightarrow> string" where
  "digits n = (if n < 10 then [digit_char n] else digits (n div 10) @ [digit_char (n mod 10)])"

declare digits.simps [simp del]

text \<open>
  \<^verbatim>\<open>Number.prototype.toString()\<close> on an integer below \<open>2 ^ 53\<close> in size, as every
  reading of the clock is: its decimal numeral.
\<close>

definition number_toString :: "int \<Rightarrow> string" where
  "number_toString n = (if n < 0 then CHR ''-'' # digits (nat (- n)) else digits (nat n))"

text \<open>
  A larger number is the double nearest to it (ties to the even one, and
  \<^verbatim>\<open>Infinity\<close> from \<open>2 ^ 1024\<close> on), and JavaScript prints a double with the fewest
  digits that still denote it, the nearest such numeral if there are several, in
  exponent form from 21 digits on.
\<close>

fun bit_length :: "nat \<Rightarrow> nat" where
  "bit_length n = (if n = 0 then 0 else Suc (bit_length (n div 2)))"

declare bit_length.simps [simp del]

definition to_double :: "nat \<Rightarrow> nat" where
  "to_double m =
     (let b = bit_length m
      in if b \<le> 53 then m
         else (let sh = b - 53; q = m div 2 ^ sh; r = m mod 2 ^ sh; h = 2 ^ (sh - 1)
               in (if h < r \<or> (r = h \<and> odd q) then q + 1 else q) * 2 ^ sh))"

fun shortest :: "nat \<Rightarrow> nat \<Rightarrow> nat" where
  "shortest 0 x = x"
| "shortest (Suc e) x =
     (let p = 10 ^ Suc e; lo = (x div p) * p; hi = lo + p;
          lo_ok = (to_double lo = x); hi_ok = (to_double hi = x)
      in if lo_ok \<and> hi_ok
         then (if x - lo < hi - x then lo
               else if hi - x < x - lo then hi
               else if even (x div p) then lo else hi)
         else if lo_ok then lo
         else if hi_ok then hi
         else shortest e x)"

fun strip_zeros :: "string \<Rightarrow> string" where
  "strip_zeros s = (if s \<noteq> [] \<and> last s = CHR ''0'' then strip_zeros (butlast s) else s)"

declare strip_zeros.simps [simp del]

definition print_double :: "nat \<Rightarrow> string" where
  "print_double x =
     (let v = shortest (length (digits x) - 1) x; ds = digits v
      in if length ds \<le> 21 then ds
         else (let m = strip_zeros ds
               in hd m # (if tl m = [] then [] else CHR ''.'' # tl m)
                    @ ''e+'' @ digits (length ds - 1)))"

definition print_number :: "int \<Rightarrow> string" where
  "print_number n =
     (if \<bar>n\<bar> < 2 ^ 53 then number_toString n
      else (let x = to_double (nat \<bar>n\<bar>);
                s = (if 2 ^ 1024 \<le> x then ''Infinity'' else print_double x)
            in if n < 0 then CHR ''-'' # s else s))"

fun intercalate :: "string \<Rightarrow> string list \<Rightarrow> string" where
  "intercalate sep [] = []"
| "intercalate sep [s] = s"
| "intercalate sep (s # t # ss) = s @ sep @ intercalate sep (t # ss)"

text \<open>
  The string a value becomes when it is concatenated to a string or put in a
  \<^verbatim>\<open>URLSearchParams\<close>. An object becomes \<^verbatim>\<open>[object Object]\<close> through the
  \<^verbatim>\<open>toString\<close> it inherits; when it has a property of its own named \<^verbatim>\<open>toString\<close>
  (a JSON value, so nothing that can be called), the conversion throws a \<^verbatim>\<open>TypeError\<close>.
  An array is its elements' strings joined by commas, \<^verbatim>\<open>null\<close> and \<^verbatim>\<open>undefined\<close>
  elements being empty; it throws when an element does.
\<close>

fun to_string :: "jsval \<Rightarrow> js_error + string"
  and to_strings :: "jsval list \<Rightarrow> js_error + string list" where
  "to_string JNull = Inr ''null''"
| "to_string JUndefined = Inr ''undefined''"
| "to_string (JBool b) = Inr (if b then ''true'' else ''false'')"
| "to_string (JNum n) = Inr (print_number n)"
| "to_string (JStr s) = Inr s"
| "to_string (JArr xs) =
     (case to_strings xs of Inl e \<Rightarrow> Inl e | Inr ss \<Rightarrow> Inr (intercalate '','' ss))"
| "to_string (JObj ps) =
     (if ''toString'' \<in> fst ` set ps
      then Inl (Error ''Cannot convert object to primitive value'')
      else Inr ''[object Object]'')"
| "to_strings [] = Inr []"
| "to_strings (x # xs) =
     (case (if x = JNull \<or> x = JUndefined then Inr [] else to_string x) of
        Inl e \<Rightarrow> Inl e
      | Inr s \<Rightarrow> (case to_strings xs of Inl e \<Rightarrow> Inl e | Inr ss \<Rightarrow> Inr (s # ss)))"

subsection \<open>Strings as UTF-8\<close>

definition high_surrogate :: "char \<Rightarrow> char \<Rightarrow> bool" where
  "high_surrogate a b =
     ((of_char a :: nat) = 0xED \<and> 0xA0 \<le> (of_char b :: nat) \<and> (of_char b :: nat) \<le> 0xAF)"

definition low_surrogate :: "char \<Rightarrow> char \<Rightarrow> bool" where
  "low_surrogate a b =
     ((of_char a :: nat) = 0xED \<and> 0xB0 \<le> (of_char b :: nat) \<and> (of_char b :: nat) \<le> 0xBF)"

text \<open>
  The four bytes of the character that a high surrogate \<^verbatim>\<open>ED b c\<close> and a low surrogate
  \<^verbatim>\<open>ED e f\<close> make together.
\<close>

definition pair_utf8 :: "char \<Rightarrow> char \<Rightarrow> char \<Rightarrow> char \<Rightarrow> string" where
  "pair_utf8 b c e f =
     (let cp = 0x10000 + (((of_char b :: nat) - 0xA0) * 64 + (of_char c :: nat) mod 64) * 1024
                 + (((of_char e :: nat) - 0xB0) * 64 + (of_char f :: nat) mod 64)
      in [char_of (0xF0 + cp div 262144), char_of (0x80 + cp div 4096 mod 64),
          char_of (0x80 + cp div 64 mod 64), char_of (0x80 + cp mod 64)])"

text \<open>
  The UTF-8 bytes of a string as \<^verbatim>\<open>encodeURIComponent\<close> makes them: a surrogate pair
  becomes the four bytes of its character, and a surrogate without its partner throws a
  \<^verbatim>\<open>URIError\<close>.
\<close>

fun utf8_encode :: "string \<Rightarrow> js_error + string" where
  "utf8_encode (a # b # c # s) =
     (if high_surrogate a b
      then (case s of
              d # e # f # t \<Rightarrow>
                if low_surrogate d e
                then (case utf8_encode t of
                        Inl x \<Rightarrow> Inl x
                      | Inr u \<Rightarrow> Inr (pair_utf8 b c e f @ u))
                else Inl (Error ''URI malformed'')
            | _ \<Rightarrow> Inl (Error ''URI malformed''))
      else if low_surrogate a b then Inl (Error ''URI malformed'')
      else (case utf8_encode (b # c # s) of Inl x \<Rightarrow> Inl x | Inr u \<Rightarrow> Inr (a # u)))"
| "utf8_encode s = Inr s"

text \<open>
  The UTF-8 bytes of a string as a \<^verbatim>\<open>USVString\<close>: a surrogate without its partner
  becomes U+FFFD, and nothing throws.
\<close>

fun usv_encode :: "string \<Rightarrow> string" where
  "usv_encode (a # b # c # s) =
     (if high_surrogate a b
      then (case s of
              d # e # f # t \<Rightarrow>
                if low_surrogate d e then pair_utf8 b c e f @ usv_encode t
                else [char_of (0xEF :: nat), char_of (0xBF :: nat), char_of (0xBD :: nat)]
                       @ usv_encode s
            | _ \<Rightarrow> [char_of (0xEF :: nat), char_of (0xBF :: nat), char_of (0xBD :: nat)]
                       @ usv_encode s)
      else if low_surrogate a b
      then [char_of (0xEF :: nat), char_of (0xBF :: nat), char_of (0xBD :: nat)] @ usv_encode s
      else a # usv_encode (b # c # s))"
| "usv_encode s = s"

section \<open>SHA-1 and the hexadecimal encoder of CryptoJS\<close>

text \<open>
  Modelled from the spec: the CryptoJS library that \<^verbatim>\<open>generateSignature\<close> calls is not
  among the repository's sources. The specification names the digest: SHA-1, in lowercase
  hexadecimal. \<^verbatim>\<open>CryptoJS.SHA1\<close> takes the UTF-8 bytes of its string (with
  \<^verbatim>\<open>encodeURIComponent\<close>, which throws on a lone surrogate), hashes them with SHA-1
  (FIPS 180-4: padding to blocks of 64 bytes, eighty rounds on five 32-bit words for every
  block) and returns the five words of the digest; \<^verbatim>\<open>toString()\<close> prints them with the
  library's \<^verbatim>\<open>Hex\<close> encoder, byte by byte, with shifts and masks. \<open>SHA1\<close> is the hash
  of a list of bytes, \<open>CryptoJS_SHA1\<close> the call on a string.
\<close>

type_synonym w32 = "32 word"
type_synonym hash = "w32 \<times> w32 \<times> w32 \<times> w32 \<times> w32"

definition rotl :: "nat \<Rightarrow> w32 \<Rightarrow> w32" where
  "rotl n x = push_bit n x OR drop_bit (32 - n) x"

definition sha1_pad :: "8 word list \<Rightarrow> 8 word list" where
  "sha1_pad bs =
     (let n = length bs; bits = (word_of_nat (8 * n) :: 64 word)
      in bs @ [0x80] @ replicate ((119 - n mod 64) mod 64) 0 @
         map (\<lambda>i. ucast (drop_bit (56 - 8 * i) bits)) [0..<8])"

fun words_of_bytes :: "8 word list \<Rightarrow> w32 list" where
  "words_of_bytes (b0 # b1 # b2 # b3 # bs) =
     (push_bit 24 (ucast b0) OR push_bit 16 (ucast b1) OR push_bit 8 (ucast b2) OR ucast b3)
       # words_of_bytes bs"
| "words_of_bytes bs = []"

fun schedule :: "w32 list \<Rightarrow> nat \<Rightarrow> w32 list" where
  "schedule W 0 = W"
| "schedule W (Suc n) =
     (let i = length W;
          x = W ! (i - 3) XOR W ! (i - 8) XOR W ! (i - 14) XOR W ! (i - 16)
      in schedule (W @ [rotl 1 x]) n)"

definition sha1_round :: "nat \<Rightarrow> w32 \<Rightarrow> hash \<Rightarrow> hash" where
  "sha1_round i w = (\<lambda>(a, b, c, d, e).
     let t = rotl 5 a + e + w +
               (if i < 20 then ((b AND c) OR (NOT b AND d)) + 0x5a827999
                else if i < 40 then (b XOR c XOR d) + 0x6ed9eba1
                else if i < 60 then ((b AND c) OR (b AND d) OR (c AND d)) + 0x8f1bbcdc
                else (b XOR c XOR d) + 0xca62c1d6)
     in (t, a, rotl 30 b, c, d))"

fun rounds :: "nat \<Rightarrow> w32 list \<Rightarrow> hash \<Rightarrow> hash" where
  "rounds i [] H = H"
| "rounds i (w # ws) H = rounds (Suc i) ws (sha1_round i w H)"

definition process_block :: "hash \<Rightarrow> w32 list \<Rightarrow> hash" where
  "process_block H M =
     (case H of (h0, h1, h2, h3, h4) \<Rightarrow>
        (case rounds 0 (schedule M 64) H of (a, b, c, d, e) \<Rightarrow>
           (h0 + a, h1 + b, h2 + c, h3 + d, h4 + e)))"

fun process_blocks :: "nat \<Rightarrow> hash \<Rightarrow> w32 list \<Rightarrow> hash" where
  "process_blocks 0 H ws = H"
| "process_blocks (Suc n) H ws = process_blocks n (process_block H (take 16 ws)) (drop 16 ws)"

definition SHA1 :: "string \<Rightarrow> w32 list" where
  "SHA1 data =
     (let padded = sha1_pad (map of_char data)
      in case process_blocks (length padded div 64)
                (0x67452301, 0xefcdab89, 0x98badcfe, 0x10325476, 0xc3d2e1f0)
                (words_of_bytes padded)
         of (h0, h1, h2, h3, h4) \<Rightarrow> [h0, h1, h2, h3, h4])"

definition CryptoJS_SHA1 :: "string \<Rightarrow> js_error + w32 list" where
  "CryptoJS_SHA1 data =
     (case utf8_encode data of Inl e \<Rightarrow> Inl e | Inr bytes \<Rightarrow> Inr (SHA1 bytes))"

definition hex_char :: "nat \<Rightarrow> char" where
  "hex_char n = ''0123456789abcdef'' ! n"

definition word_bytes :: "w32 \<Rightarrow> 8 word list" where
  "word_bytes w = map (\<lambda>i. ucast (drop_bit (24 - 8 * i) w AND 0xff)) [0..<4]"

definition hex_byte :: "8 word \<Rightarrow> string" where
  "hex_byte b = [hex_char (unat (drop_bit 4 b)), hex_char (unat (b AND 0x0f))]"

definition hex_stringify :: "w32 list \<Rightarrow> string" where
  "hex_stringify ws = concat (map hex_byte (concat (map word_bytes ws)))"

text \<open>\<^verbatim>\<open>String.prototype.toLowerCase()\<close>, on the ASCII letters.\<close>

definition lower_char :: "char \<Rightarrow> char" where
  "lower_char c =
     (let n = (of_char c :: nat) in if 65 \<le> n \<and> n \<le> 90 then char_of (n + 32) else c)"

definition toLowerCase :: "string \<Rightarrow> string" where
  "toLowerCase s = map lower_char s"

section \<open>The browser\<close>

text \<open>
  What the client touches outside itself: \<^verbatim>\<open>localStorage\<close>, the clock behind
  \<^verbatim>\<open>Date.now()\<close> and the network behind \<^verbatim>\<open>fetch\<close>.

  A stored item is a string; the client only ever reads it through \<^verbatim>\<open>JSON.parse\<close>, so
  an item is kept as what \<^verbatim>\<open>JSON.parse\<close> makes of it: a value, or a failure (the empty
  string, which \<^verbatim>\<open>getLocalStorage\<close> treats the same way, included).
\<close>

datatype stored = Unparsable | Parses jsval

text \<open>
  \<^verbatim>\<open>JSON.parse(JSON.stringify(v))\<close>: a property whose value is \<^verbatim>\<open>undefined\<close> is left
  out, an \<^verbatim>\<open>undefined\<close> array element becomes \<^verbatim>\<open>null\<close>.
\<close>

fun json_clean :: "jsval \<Rightarrow> jsval" where
  "json_clean (JArr xs) = JArr (map (\<lambda>x. if x = JUndefined then JNull else json_clean x) xs)"
| "json_clean (JObj ps) =
     JObj (filter (\<lambda>(k, v). v \<noteq> JUndefined) (map (\<lambda>(k, v). (k, json_clean v)) ps))"
| "json_clean v = v"

text \<open>
  The item \<^verbatim>\<open>setItem(key, JSON.stringify(v))\<close> leaves: \<^verbatim>\<open>JSON.stringify(undefined)\<close> is
  \<^verbatim>\<open>undefined\<close>, stored as the text \<^verbatim>\<open>undefined\<close>, which does not parse.
\<close>

definition json_item :: "jsval \<Rightarrow> stored" where
  "json_item v = (if v = JUndefined then Unparsable else Parses (json_clean v))"

text \<open>
  An HTTP request as \<^verbatim>\<open>fetch\<close> receives it, and what the network does with it: after
  \<^verbatim>\<open>delay\<close> milliseconds, \<^verbatim>\<open>fetch\<close> rejects with an error or resolves with a
  response (its head has arrived), whose \<^verbatim>\<open>json()\<close> reads the body and gives a value
  or rejects. The client never reads the status of a response.
\<close>

record http_request =
  http_method :: string
  url :: string
  headers :: "(string \<times> string) list"
  body :: "string option"

datatype response = Body_json jsval | Body_invalid string

datatype fetch_outcome = Fails string | Responds response

record reply =
  delay :: nat
  outcome :: fetch_outcome

text \<open>
  The state: the fields of the \<^verbatim>\<open>API\<close> object (\<^verbatim>\<open>baseURL\<close>, \<^verbatim>\<open>token\<close>,
  \<^verbatim>\<open>secret\<close>, \<^verbatim>\<open>authTime\<close>), and the browser. \<^verbatim>\<open>storage_full\<close> says that
  \<^verbatim>\<open>localStorage.setItem\<close> throws (\<^verbatim>\<open>QuotaExceededError\<close>); \<^verbatim>\<open>getItem\<close> and
  \<^verbatim>\<open>removeItem\<close> do not throw. \<^verbatim>\<open>clock\<close> is what \<^verbatim>\<open>Date.now()\<close> returns, in
  milliseconds. \<^verbatim>\<open>net i\<close> is what the network does with the \<^verbatim>\<open>i\<close>-th call of
  \<^verbatim>\<open>fetch\<close>, \<^verbatim>\<open>body_time i\<close> the milliseconds that reading the body of its response
  takes, and \<^verbatim>\<open>sent\<close> lists the requests handed to \<^verbatim>\<open>fetch\<close> so far.
\<close>

record state =
  baseURL :: string
  token :: jsval
  secret :: jsval
  authTime :: jsval
  localStorage :: "string \<rightharpoonup> stored"
  storage_full :: bool
  clock :: int
  net :: "nat \<Rightarrow> reply"
  body_time :: "nat \<Rightarrow> nat"
  sent :: "http_request list"

definition companyKey :: string where
  "companyKey = ''bnrl_frRFjEz8Mkn''"

text \<open>\<^verbatim>\<open>fetch\<close>: the request goes out, and time passes until the network has answered.\<close>

definition fetch :: "http_request \<Rightarrow> state \<Rightarrow> (js_error + response) \<times> state" where
  "fetch req st =
     (let r = net st (length (sent st));
          st' = st\<lparr>sent := sent st @ [req], clock := clock st + int (delay r)\<rparr>
      in (case outcome r of Fails m \<Rightarrow> Inl (Error m) | Responds resp \<Rightarrow> Inr resp, st'))"

text \<open>
  \<^verbatim>\<open>await response.json()\<close> for the response of the \<open>i\<close>-th fetch: time passes while the
  body is read, under no timer.
\<close>

definition response_json :: "response \<Rightarrow> nat \<Rightarrow> state \<Rightarrow> (js_error + jsval) \<times> state" where
  "response_json resp i st =
     (case resp of Body_json v \<Rightarrow> Inr v | Body_invalid m \<Rightarrow> Inl (Error m),
      st\<lparr>clock := clock st + int (body_time st i)\<rparr>)"

section \<open>Utils\<close>

definition getLocalStorage :: "string \<Rightarrow> jsval \<Rightarrow> state \<Rightarrow> jsval" where
  "getLocalStorage key defaultValue st =
     (case localStorage st key of
        None \<Rightarrow> defaultValue
      | Some Unparsable \<Rightarrow> defaultValue
      | Some (Parses v) \<Rightarrow> v)"

definition setLocalStorage :: "string \<Rightarrow> jsval \<Rightarrow> state \<Rightarrow> bool \<times> state" where
  "setLocalStorage key v st =
     (if storage_full st then (False, st)
      else (True, st\<lparr>localStorage := (localStorage st)(key \<mapsto> json_item v)\<rparr>))"

definition removeLocalStorage :: "string \<Rightarrow> state \<Rightarrow> bool \<times> state" where
  "removeLocalStorage key st = (True, st\<lparr>localStorage := (localStorage st)(key := None)\<rparr>)"

text \<open>
  The order in which JavaScript enumerates the properties of an object: the names that
  are array indices (canonical decimal numerals below \<open>2 ^ 32 - 1\<close>) in ascending order,
  then the other names in insertion order.
\<close>

definition decimal_value :: "string \<Rightarrow> nat" where
  "decimal_value k = foldl (\<lambda>n c. 10 * n + ((of_char c :: nat) - 48)) 0 k"

definition array_index :: "string \<Rightarrow> nat option" where
  "array_index k =
     (if k \<noteq> [] \<and> list_all (\<lambda>c. 48 \<le> (of_char c :: nat) \<and> (of_char c :: nat) \<le> 57) k
         \<and> (hd k \<noteq> CHR ''0'' \<or> k = ''0'') \<and> decimal_value k < 4294967295
      then Some (decimal_value k) else None)"

definition own_keys_order :: "obj \<Rightarrow> obj" where
  "own_keys_order ps =
     sort_key (\<lambda>(k, v). case array_index k of Some n \<Rightarrow> n | None \<Rightarrow> 0)
       (filter (\<lambda>(k, v). array_index k \<noteq> None) ps)
     @ filter (\<lambda>(k, v). array_index k = None) ps"

text \<open>
  The \<^verbatim>\<open>application/x-www-form-urlencoded\<close> serialiser on a list of names and values,
  both as UTF-8 bytes.
\<close>

definition hex_upper :: "nat \<Rightarrow> char" where
  "hex_upper n = ''0123456789ABCDEF'' ! n"

definition urlencode_char :: "char \<Rightarrow> string" where
  "urlencode_char c =
     (let n = (of_char c :: nat)
      in if (48 \<le> n \<and> n \<le> 57) \<or> (65 \<le> n \<and> n \<le> 90) \<or> (97 \<le> n \<and> n \<le> 122)
            \<or> c \<in> set ''*-._'' then [c]
         else if c = CHR '' '' then ''+''
         else [CHR ''%'', hex_upper (n div 16), hex_upper (n mod 16)])"

definition urlencode :: "string \<Rightarrow> string" where
  "urlencode s = concat (map urlencode_char s)"

definition form_urlencoded :: "(string \<times> string) list \<Rightarrow> string" where
  "form_urlencoded pairs =
     intercalate ''&'' (map (\<lambda>(k, v). urlencode k @ ''='' @ urlencode v) pairs)"

text \<open>
  \<^verbatim>\<open>new URLSearchParams(params)\<close> on an object: its properties in enumeration order,
  every value converted to a string (which may throw), names and values as
  \<^verbatim>\<open>USVString\<close>s.
\<close>

fun search_params :: "obj \<Rightarrow> js_error + (string \<times> string) list" where
  "search_params [] = Inr []"
| "search_params ((k, v) # ps) =
     (case to_string v of
        Inl e \<Rightarrow> Inl e
      | Inr s \<Rightarrow>
         (case search_params ps of
            Inl e \<Rightarrow> Inl e
          | Inr pairs \<Rightarrow> Inr ((usv_encode k, usv_encode s) # pairs)))"

definition toQueryString :: "obj \<Rightarrow> js_error + string" where
  "toQueryString params =
     (case search_params (own_keys_order params) of
        Inl e \<Rightarrow> Inl e
      | Inr pairs \<Rightarrow> Inr (form_urlencoded pairs))"

text \<open>
  \<^verbatim>\<open>Promise.race\<close> of the fetch and a timer: the fetch's outcome when it has settled
  when the timer fires (a fetch that settles in the same millisecond wins), the rejection
  \<^verbatim>\<open>Request timeout\<close> otherwise. The request is handed to \<^verbatim>\<open>fetch\<close> either way.
\<close>

definition fetchWithTimeout ::
    "http_request \<Rightarrow> nat \<Rightarrow> state \<Rightarrow> (js_error + response) \<times> state" where
  "fetchWithTimeout req timeout st =
     (let r = net st (length (sent st))
      in if delay r \<le> timeout then fetch req st
         else (Inl (Error ''Request timeout''),
               st\<lparr>sent := sent st @ [req], clock := clock st + int timeout\<rparr>))"

section \<open>The API client\<close>

text \<open>
  What a call of the client returns: \<^verbatim>\<open>{ success, data, message }\<close> or
  \<^verbatim>\<open>{ success, error, data }\<close> or \<^verbatim>\<open>{ success, error }\<close>. A property the object
  does not have reads as \<^verbatim>\<open>undefined\<close>.
\<close>

record api_result =
  success :: bool
  data :: jsval
  message :: jsval
  error :: jsval

text \<open>The \<^verbatim>\<open>API\<close> object as the script creates it, in a browser \<^verbatim>\<open>b\<close>.\<close>

definition API :: "state \<Rightarrow> state" where
  "API b = b\<lparr>baseURL := ''http://android.shinemonitor.com/public/'',
             token := JNull, secret := JNull, authTime := JNull\<rparr>"

text \<open>
  \<^verbatim>\<open>init(customBaseURL = null)\<close>. The stored credentials are adopted when both
  \<^verbatim>\<open>stored.token\<close> and \<^verbatim>\<open>stored.secret\<close> are truthy. When the stored item is the JSON
  \<^verbatim>\<open>null\<close>, reading \<^verbatim>\<open>stored.token\<close> throws, and \<^verbatim>\<open>init\<close> with it.
\<close>

definition init :: "string option \<Rightarrow> state \<Rightarrow> (js_error + unit) \<times> state" where
  "init customBaseURL st =
     (let st1 = (case customBaseURL of
                   None \<Rightarrow> st
                 | Some u \<Rightarrow> if u \<noteq> [] then st\<lparr>baseURL := u\<rparr> else st);
          stored = getLocalStorage ''api_credentials'' (JObj []) st1
      in case get_member stored ''token'' of
           Inl e \<Rightarrow> (Inl e, st1)
         | Inr t \<Rightarrow>
             if truthy (js_and t (property stored ''secret''))
             then (Inr (), st1\<lparr>token := property stored ''token'',
                                secret := property stored ''secret'',
                                authTime := property stored ''authTime''\<rparr>)
             else (Inr (), st1))"

text \<open>
  \<^verbatim>\<open>salt + token + secret\<close> with a string \<^verbatim>\<open>salt\<close> (the one caller passes
  \<^verbatim>\<open>Date.now().toString()\<close>) is string concatenation, whatever the other two are: the
  token is converted to a string, then the secret, and either conversion may throw, as
  \<^verbatim>\<open>CryptoJS.SHA1\<close> may afterwards.
\<close>

definition generateSignature :: "string \<Rightarrow> jsval \<Rightarrow> jsval \<Rightarrow> js_error + string" where
  "generateSignature salt tok sec =
     (case to_string tok of
        Inl e \<Rightarrow> Inl e
      | Inr t \<Rightarrow>
         (case to_string sec of
            Inl e \<Rightarrow> Inl e
          | Inr s \<Rightarrow>
             (case CryptoJS_SHA1 (salt @ t @ s) of
                Inl e \<Rightarrow> Inl e
              | Inr words \<Rightarrow> Inr (toLowerCase (hex_stringify words)))))"

text \<open>The local constant \<^verbatim>\<open>baseParams\<close> of \<^verbatim>\<open>buildParams\<close>.\<close>

definition baseParams :: "string \<Rightarrow> string \<Rightarrow> state \<Rightarrow> obj" where
  "baseParams sign salt st =
     [(''sign'', JStr sign),
      (''salt'', JStr salt),
      (''token'', token st),
      (''i18n'', JStr ''en_US''),
      (''lang'', JStr ''en_US''),
      (''source'', JStr ''android''),
      (''_app_client_'', JStr ''android''),
      (''_app_id_'', JStr ''com.eybond.smartclient.ess''),
      (''_app_version_'', JStr ''3.43.0.1'')]"

definition buildParams :: "obj \<Rightarrow> state \<Rightarrow> js_error + obj" where
  "buildParams params st =
     (let salt = number_toString (clock st)
      in case generateSignature salt (token st) (secret st) of
           Inl e \<Rightarrow> Inl e
         | Inr sign \<Rightarrow> Inr (spread (baseParams sign salt st) params))"

text \<open>
  The local constants \<^verbatim>\<open>requestParams\<close> and \<^verbatim>\<open>queryString\<close> of \<^verbatim>\<open>request\<close>, or the
  exception thrown on the way to them.
\<close>

definition requestParams :: "string \<Rightarrow> obj \<Rightarrow> state \<Rightarrow> js_error + obj" where
  "requestParams action params st =
     buildParams (spread [(''action'', JStr action)] params) st"

definition queryString :: "string \<Rightarrow> obj \<Rightarrow> state \<Rightarrow> js_error + string" where
  "queryString action params st =
     (case requestParams action params st of
        Inl e \<Rightarrow> Inl e
      | Inr rp \<Rightarrow> toQueryString rp)"

text \<open>The result of the \<^verbatim>\<open>catch\<close> block of \<^verbatim>\<open>request\<close>.\<close>

definition request_error :: "js_error \<Rightarrow> api_result" where
  "request_error e =
     \<lparr>success = False, data = JUndefined, message = JUndefined,
      error = js_or (JStr (error_message e)) (JStr ''Network error'')\<rparr>"

text \<open>
  \<^verbatim>\<open>request\<close>. Everything is inside the \<^verbatim>\<open>try\<close>: when building the parameters or the
  query string throws, the \<^verbatim>\<open>catch\<close> block returns and \<^verbatim>\<open>fetch\<close> is never called.
\<close>

definition request :: "string \<Rightarrow> obj \<Rightarrow> state \<Rightarrow> api_result \<times> state" where
  "request action params st =
     (case queryString action params st of
        Inl e \<Rightarrow> (request_error e, st)
      | Inr q \<Rightarrow>
         (let url = baseURL st @ ''?'' @ q;
              (r, st1) = fetchWithTimeout
                           \<lparr>http_method = ''GET'', url = url,
                            headers = [(''Accept'', ''application/json'')], body = None\<rparr>
                           30000 st
          in case r of
               Inl e \<Rightarrow> (request_error e, st1)
             | Inr resp \<Rightarrow>
                (let (j, st2) = response_json resp (length (sent st)) st1
                 in case j of
                      Inl e \<Rightarrow> (request_error e, st2)
                    | Inr d \<Rightarrow>
                       (case get_member d ''err'' of
                          Inl e \<Rightarrow> (request_error e, st2)
                        | Inr err \<Rightarrow>
                            if err = JNum 0
                            then (\<lparr>success = True, data = property d ''dat'',
                                   message = property d ''desc'', error = JUndefined\<rparr>,
                                  st2)
                            else (\<lparr>success = False, data = property d ''dat'',
                                   message = JUndefined,
                                   error = js_or (property d ''desc'')
                                             (JStr ''Unknown error'')\<rparr>,
                                  st2)))))"

text \<open>The result of the \<^verbatim>\<open>catch\<close> block of \<^verbatim>\<open>login\<close>.\<close>

definition login_error :: "js_error \<Rightarrow> api_result" where
  "login_error e =
     \<lparr>success = False, data = JUndefined, message = JUndefined,
      error = js_or (JStr (error_message e)) (JStr ''Login failed'')\<rparr>"

definition login :: "string \<Rightarrow> string \<Rightarrow> state \<Rightarrow> api_result \<times> state" where
  "login email password st =
     (case toQueryString
             [(''action'', JStr ''authSource''),
              (''usr'', JStr email),
              (''pwd'', JStr password),
              (''company-key'', JStr companyKey),
              (''source'', JStr ''android'')] of
        Inl e \<Rightarrow> (login_error e, st)
      | Inr form \<Rightarrow>
         (let (r, st1) = fetch
                           \<lparr>http_method = ''POST'', url = baseURL st,
                            headers =
                              [(''Content-Type'', ''application/x-www-form-urlencoded''),
                               (''Accept'', ''application/json'')],
                            body = Some form\<rparr>
                           st
          in case r of
               Inl e \<Rightarrow> (login_error e, st1)
             | Inr resp \<Rightarrow>
                (let (j, st2) = response_json resp (length (sent st)) st1
                 in case j of
                      Inl e \<Rightarrow> (login_error e, st2)
                    | Inr d \<Rightarrow>
                       (case get_member d ''err'' of
                          Inl e \<Rightarrow> (login_error e, st2)
                        | Inr err \<Rightarrow>
                            if err = JNum 0 \<and> truthy (property d ''dat'')
                            then
                              (let dat = property d ''dat'';
                                   tok = property dat ''token'';
                                   sec = property dat ''secret'';
                                   userid = property dat ''userid'';
                                   st3 = st2\<lparr>token := tok, secret := sec,
                                             authTime := JNum (clock st2)\<rparr>;
                                   (stored, st4) =
                                     setLocalStorage ''api_credentials''
                                       (JObj [(''token'', tok),
                                              (''secret'', sec),
                                              (''authTime'', authTime st3),
                                              (''userid'', userid),
                                              (''email'', JStr email)])
                                       st3
                               in (\<lparr>success = True, data = dat, message = JUndefined,
                                     error = JUndefined\<rparr>, st4))
                            else (\<lparr>success = False, data = JUndefined,
                                   message = JUndefined,
                                   error = js_or (property d ''desc'')
                                             (JStr ''Login failed'')\<rparr>,
                                  st2)))))"

definition logout :: "state \<Rightarrow> state" where
  "logout st =
     snd (removeLocalStorage ''api_credentials''
            (st\<lparr>token := JNull, secret := JNull, authTime := JNull\<rparr>))"

definition getAccountInfo :: "state \<Rightarrow> api_result \<times> state" where
  "getAccountInfo st = request ''queryAccountInfo'' [] st"

definition getPlantInfo :: "jsval \<Rightarrow> state \<Rightarrow> api_result \<times> state" where
  "getPlantInfo plantId st = request ''queryPlantInfo'' [(''plantid'', plantId)] st"

definition getDeviceLastData ::
    "jsval \<Rightarrow> jsval \<Rightarrow> jsval \<Rightarrow> jsval \<Rightarrow> state \<Rightarrow> api_result \<times> state" where
  "getDeviceLastData pn devcode devaddr sn st =
     request ''querySPDeviceLastData''
       [(''pn'', pn), (''devcode'', devcode), (''devaddr'', devaddr), (''sn'', sn)] st"

definition getDeviceKeyParameters :: "jsval \<Rightarrow> state \<Rightarrow> api_result \<times> state" where
  "getDeviceKeyParameters devcode st =
     request ''querySPKeyParameters'' [(''devcode'', devcode)] st"

definition getDeviceOneDayHistory ::
    "jsval \<Rightarrow> jsval \<Rightarrow> jsval \<Rightarrow> jsval \<Rightarrow> jsval \<Rightarrow> jsval \<Rightarrow> state
      \<Rightarrow> api_result \<times> state" where
  "getDeviceOneDayHistory pn devcode devaddr sn parameter date st =
     request ''querySPDeviceKeyParameterOneDay''
       [(''pn'', pn), (''devcode'', devcode), (''devaddr'', devaddr), (''sn'', sn),
        (''parameter'', parameter), (''date'', date)] st"

definition getDeviceChartFields :: "jsval \<Rightarrow> state \<Rightarrow> api_result \<times> state" where
  "getDeviceChartFields devcode st =
     request ''queryDeviceChartsFieldsEs'' [(''devcode'', devcode)] st"

definition getCollectorStatus :: "jsval \<Rightarrow> state \<Rightarrow> api_result \<times> state" where
  "getCollectorStatus pn st = request ''queryCollectorDevicesStatus'' [(''pn'', pn)] st"

definition getDeviceControlFields ::
    "jsval \<Rightarrow> jsval \<Rightarrow> jsval \<Rightarrow> jsval \<Rightarrow> state \<Rightarrow> api_result \<times> state" where
  "getDeviceControlFields pn devcode devaddr sn st =
     request ''webQueryDeviceCtrlField''
       [(''pn'', pn), (''devcode'', devcode), (''devaddr'', devaddr), (''sn'', sn)] st"

definition controlDevice ::
    "jsval \<Rightarrow> jsval \<Rightarrow> jsval \<Rightarrow> jsval \<Rightarrow> jsval \<Rightarrow> jsval \<Rightarrow> state
      \<Rightarrow> api_result \<times> state" where
  "controlDevice pn devcode devaddr sn ident val st =
     request ''ctrlDevice''
       [(''pn'', pn), (''devcode'', devcode), (''devaddr'', devaddr), (''sn'', sn),
        (''id'', ident), (''val'', val)] st"

definition isAuthenticated :: "state \<Rightarrow> bool" where
  "isAuthenticated st = truthy (js_and (token st) (secret st))"

definition getStoredCredentials :: "state \<Rightarrow> jsval" where
  "getStoredCredentials st = getLocalStorage ''api_credentials'' (JObj []) st"

definition clearStoredCredentials :: "state \<Rightarrow> state" where
  "clearStoredCredentials st = logout st"

subsection \<open>Sessions of calls\<close>

text \<open>
  The operations that write the session, and a run of them from the state in which the
  script leaves the \<^verbatim>\<open>API\<close> object. An exception of \<^verbatim>\<open>init\<close> ends that call; the
  state it leaves stays.
\<close>

datatype operation = Init "string option" | Login string string | Logout

fun step :: "operation \<Rightarrow> state \<Rightarrow> state" where
  "step (Init u) st = snd (init u st)"
| "step (Login email password) st = snd (login email password st)"
| "step Logout st = logout st"

definition run :: "operation list \<Rightarrow> state \<Rightarrow> state" where
  "run ops st = foldl (\<lambda>s op. step op s) st ops"

text \<open>A session field holds a value when it is neither \<^verbatim>\<open>null\<close> nor \<^verbatim>\<open>undefined\<close>.\<close>

definition present :: "jsval \<Rightarrow> bool" where
  "present v = (v \<noteq> JNull \<and> v \<noteq> JUndefined)"

section \<open>The specification's words\<close>

text \<open>
  The lowercase hexadecimal representation of a digest, as the specification names it:
  the bytes of the digest's words, most significant first, each as two digits of base 16
  with the digits \<^verbatim>\<open>0\<close> to \<^verbatim>\<open>9\<close> and \<^verbatim>\<open>a\<close> to \<^verbatim>\<open>f\<close>.
\<close>

definition hex_digit_lower :: "nat \<Rightarrow> char" where
  "hex_digit_lower d = (if d < 10 then char_of (48 + d) else char_of (87 + d))"

definition lowercase_hex :: "nat list \<Rightarrow> string" where
  "lowercase_hex bs = concat (map (\<lambda>b. [hex_digit_lower (b div 16), hex_digit_lower (b mod 16)]) bs)"

definition digest_bytes :: "w32 list \<Rightarrow> nat list" where
  "digest_bytes ws =
     concat (map (\<lambda>w. [unat w div 2 ^ 24 mod 256, unat w div 2 ^ 16 mod 256,
                        unat w div 2 ^ 8 mod 256, unat w mod 256]) ws)"

text \<open>
  A well-formed string: every surrogate code unit in it is half of a pair, a high
  surrogate followed by a low one.
\<close>

fun well_formed :: "string \<Rightarrow> bool" where
  "well_formed (a # b # c # s) =
     (if high_surrogate a b
      then (case s of d # e # f # t \<Rightarrow> low_surrogate d e \<and> well_formed t | _ \<Rightarrow> False)
      else \<not> low_surrogate a b \<and> well_formed (b # c # s))"
| "well_formed s = True"

text \<open>
  A string with no surrogate code unit in it (every string of the basic plane is one):
  its UTF-8 bytes are the string itself.
\<close>

fun surrogate_free :: "string \<Rightarrow> bool" where
  "surrogate_free (a # b # s) =
     (\<not> high_surrogate a b \<and> \<not> low_surrogate a b \<and> surrogate_free (b # s))"
| "surrogate_free s = True"

section \<open>A browser for examples\<close>

text \<open>
  A browser with an empty storage that accepts writes, whose clock reads
  1700000000000, whose network behaves as \<open>n\<close> says and where a body is read within the
  millisecond. \<open>API (browser n)\<close> is the client as the script creates it there.
\<close>

definition browser :: "(nat \<Rightarrow> reply) \<Rightarrow> state" where
  "browser n =
     \<lparr>baseURL = [], token = JUndefined, secret = JUndefined, authTime = JUndefined,
      localStorage = Map.empty, storage_full = False, clock = 1700000000000,
      net = n, body_time = (\<lambda>i. 0), sent = []\<rparr>"

section \<open>Decimal numerals\<close>

lemma digit_char_inj: "a < 10 \<Longrightarrow> b < 10 \<Longrightarrow> digit_char a = digit_char b \<Longrightarrow> a = b"
  by (simp add: digit_char_def char_of_eq_iff take_bit_nat_eq_self)

lemma digits_not_Nil: "digits n \<noteq> []"
  by (subst digits.simps) simp

lemma digits_inj: "digits m = digits n \<Longrightarrow> m = n"
proof (induction m arbitrary: n rule: digits.induct)
  case (1 m)
  show ?case
  proof (cases "m < 10")
    case True
    then have m: "digits m = [digit_char m]" by (subst digits.simps) simp
    show ?thesis
    proof (cases "n < 10")
      case n: True
      then have "digits n = [digit_char n]" by (subst digits.simps) simp
      with m "1.prems" True n show ?thesis by (simp add: digit_char_inj)
    next
      case False
      then have "digits n = digits (n div 10) @ [digit_char (n mod 10)]"
        by (subst digits.simps) simp
      with m "1.prems" digits_not_Nil [of "n div 10"] show ?thesis by simp
    qed
  next
    case False
    then have m: "digits m = digits (m div 10) @ [digit_char (m mod 10)]"
      by (subst digits.simps) simp
    show ?thesis
    proof (cases "n < 10")
      case True
      then have "digits n = [digit_char n]" by (subst digits.simps) simp
      with m "1.prems" digits_not_Nil [of "m div 10"] show ?thesis by simp
    next
      case n: False
      then have "digits n = digits (n div 10) @ [digit_char (n mod 10)]"
        by (subst digits.simps) simp
      with m "1.prems" have d: "digits (m div 10) = digits (n div 10)"
        and r: "digit_char (m mod 10) = digit_char (n mod 10)" by simp_all
      from "1.IH" [OF False d] have "m div 10 = n div 10" .
      moreover from r have "m mod 10 = n mod 10" by (simp add: digit_char_inj)
      ultimately show ?thesis by (metis div_mult_mod_eq)
    qed
  qed
qed

lemma digits_no_minus: "CHR ''-'' \<notin> set (digits n)"
proof (induction n rule: digits.induct)
  case (1 n)
  have c: "d < 10 \<Longrightarrow> digit_char d \<noteq> CHR ''-''" for d
  proof
    assume "digit_char d = CHR ''-''"
    then have "(of_char (digit_char d) :: nat) = of_char CHR ''-''" by simp
    moreover assume "d < 10"
    ultimately show False by (simp add: digit_char_def)
  qed
  show ?case
  proof (cases "n < 10")
    case True
    then have "digits n = [digit_char n]" by (subst digits.simps) simp
    with c [OF True] show ?thesis by simp
  next
    case False
    then have "digits n = digits (n div 10) @ [digit_char (n mod 10)]"
      by (subst digits.simps) simp
    with "1.IH" [OF False] c [of "n mod 10"] show ?thesis by simp
  qed
qed

lemma number_toString_inj: "number_toString a = number_toString b \<Longrightarrow> a = b"
proof -
  assume e: "number_toString a = number_toString b"
  have neq: "CHR ''-'' # digits x \<noteq> digits y" for x y
    using digits_no_minus [of y] by (metis list.set_intros(1))
  show ?thesis
  proof (cases "a < 0")
    case True
    show ?thesis
    proof (cases "b < 0")
      case b: True
      with True e have "digits (nat (- a)) = digits (nat (- b))"
        by (simp add: number_toString_def)
      then have "nat (- a) = nat (- b)" by (rule digits_inj)
      with True b show ?thesis by simp
    next
      case False
      with True e neq show ?thesis by (simp add: number_toString_def)
    qed
  next
    case False
    show ?thesis
    proof (cases "b < 0")
      case True
      with False e neq [of "nat (- b)" "nat a"] show ?thesis
        by (simp add: number_toString_def)
    next
      case b: False
      with False e have "digits (nat a) = digits (nat b)"
        by (simp add: number_toString_def)
      then have "nat a = nat b" by (rule digits_inj)
      with False b show ?thesis by simp
    qed
  qed
qed

section \<open>Merged objects\<close>

lemma map_of_assign: "map_of (assign t s) = map_of t ++ map_of (rev s)"
  unfolding assign_def
proof (induction s arbitrary: t)
  case Nil
  show ?case by simp
next
  case (Cons p s)
  obtain k v where p: "p = (k, v)" by (cases p)
  show ?case
    by (rule ext) (simp add: p Cons.IH update_conv' map_add_def split: option.splits)
qed

lemma map_of_rev_distinct: "distinct (map fst s) \<Longrightarrow> map_of (rev s) = map_of s"
proof (induction s)
  case Nil
  show ?case by simp
next
  case (Cons p s)
  obtain k v where p: "p = (k, v)" by (cases p)
  from Cons.prems p have "map_of s k = None" by (simp add: map_of_eq_None_iff)
  with Cons p show ?case
    by (auto simp: map_add_def fun_eq_iff split: option.splits)
qed

lemma distinct_assign: "distinct (map fst t) \<Longrightarrow> distinct (map fst (assign t s))"
  unfolding assign_def
  by (induction s arbitrary: t) (auto simp: distinct_update)

lemma distinct_spread: "distinct (map fst (spread a b))"
  by (simp add: spread_def distinct_assign)

lemma map_of_spread: "map_of (spread a b) = map_of (rev a) ++ map_of (rev b)"
  by (simp add: spread_def map_of_assign)

section \<open>The hexadecimal encoder\<close>

lemma unat_low_nibble: "unat ((b :: 8 word) AND 0x0f) = unat b mod 16"
proof -
  have "(0x0f :: 8 word) = mask 4" by (simp add: mask_eq_exp_minus_1)
  then have "b AND 0x0f = take_bit 4 b" by (simp only: take_bit_eq_mask)
  then show ?thesis by (simp add: take_bit_eq_mod unat_mod)
qed

lemma unat_high_nibble: "unat (drop_bit 4 (b :: 8 word)) = unat b div 16"
  by (simp add: drop_bit_eq_div unat_div)

lemma low_byte: "unat (ucast ((x :: 32 word) AND 0xff) :: 8 word) = unat x mod 256"
proof -
  have "(0xff :: 32 word) = mask 8" by (simp add: mask_eq_exp_minus_1)
  then have "x AND 0xff = take_bit 8 x" by (simp only: take_bit_eq_mask)
  then show ?thesis
    by (simp add: unsigned_ucast_eq take_bit_eq_mod unat_mod)
qed

lemma unat_word_byte:
  "unat (ucast (drop_bit 24 (w :: 32 word) AND 0xff) :: 8 word) = unat w div 2 ^ 24 mod 256"
  "unat (ucast (drop_bit 16 (w :: 32 word) AND 0xff) :: 8 word) = unat w div 2 ^ 16 mod 256"
  "unat (ucast (drop_bit 8 (w :: 32 word) AND 0xff) :: 8 word) = unat w div 2 ^ 8 mod 256"
  "unat (ucast (drop_bit 0 (w :: 32 word) AND 0xff) :: 8 word) = unat w mod 256"
  by (simp_all only: low_byte) (simp_all add: drop_bit_eq_div unat_div)

lemma hex_table: "map hex_digit_lower [0..<16] = ''0123456789abcdef''"
  by (simp add: upt_rec hex_digit_lower_def char_of_def bit_Suc_0_iff)


lemma hex_char_lower: "d < 16 \<Longrightarrow> hex_char d = hex_digit_lower d"
  unfolding hex_char_def hex_table [symmetric] by simp

lemma hex_byte_arith: "hex_byte b = [hex_digit_lower (unat b div 16), hex_digit_lower (unat b mod 16)]"
proof -
  have "unat b < 256" using unsigned_less [of b, where 'a = nat] by simp
  then have "unat b div 16 < 16" "unat b mod 16 < 16" by simp_all
  then show ?thesis
    by (simp add: hex_byte_def unat_low_nibble unat_high_nibble hex_char_lower)
qed

lemma word_bytes_list:
  "word_bytes w = [ucast (drop_bit 24 w AND 0xff), ucast (drop_bit 16 w AND 0xff),
                   ucast (drop_bit 8 w AND 0xff), ucast (drop_bit 0 w AND 0xff)]"
  by (simp add: word_bytes_def upt_rec)

lemma hex_word_arith:
  "concat (map hex_byte (word_bytes w)) =
     lowercase_hex [unat w div 2 ^ 24 mod 256, unat w div 2 ^ 16 mod 256,
                    unat w div 2 ^ 8 mod 256, unat w mod 256]"
  unfolding word_bytes_list lowercase_hex_def
  by (simp add: hex_byte_arith unat_word_byte del: drop_bit_0)

lemma lowercase_hex_append: "lowercase_hex (xs @ ys) = lowercase_hex xs @ lowercase_hex ys"
  by (simp add: lowercase_hex_def)

lemma hex_stringify_arith: "hex_stringify ws = lowercase_hex (digest_bytes ws)"
proof (induction ws)
  case Nil
  show ?case by (simp add: hex_stringify_def lowercase_hex_def digest_bytes_def)
next
  case (Cons w ws)
  have "hex_stringify (w # ws) = concat (map hex_byte (word_bytes w)) @ hex_stringify ws"
    by (simp add: hex_stringify_def)
  also have "\<dots> = lowercase_hex [unat w div 2 ^ 24 mod 256, unat w div 2 ^ 16 mod 256,
                    unat w div 2 ^ 8 mod 256, unat w mod 256] @ lowercase_hex (digest_bytes ws)"
    by (simp only: hex_word_arith Cons.IH)
  also have "\<dots> = lowercase_hex (digest_bytes (w # ws))"
    by (simp add: digest_bytes_def lowercase_hex_append [symmetric])
  finally show ?case .
qed


lemma hex_digit_lower_in: "d < 16 \<Longrightarrow> hex_digit_lower d \<in> set ''0123456789abcdef''"
proof -
  assume d: "d < 16"
  then have "hex_digit_lower d = map hex_digit_lower [0..<16] ! d" by simp
  also have "\<dots> \<in> set (map hex_digit_lower [0..<16])" using d by (intro nth_mem) simp
  finally show ?thesis by (simp only: hex_table)
qed

lemma set_lowercase_hex:
  "\<forall>b \<in> set bs. b < 256 \<Longrightarrow> set (lowercase_hex bs) \<subseteq> set ''0123456789abcdef''"
proof (induction bs)
  case Nil
  show ?case by (simp add: lowercase_hex_def)
next
  case (Cons b bs)
  then have "b < 16 * 16" by simp
  then have "b div 16 < 16" "b mod 16 < 16"
    by (simp_all add: less_mult_imp_div_less)
  then have "hex_digit_lower (b div 16) \<in> set ''0123456789abcdef''"
    "hex_digit_lower (b mod 16) \<in> set ''0123456789abcdef''"
    by (simp_all only: hex_digit_lower_in)
  moreover have "set (lowercase_hex bs) \<subseteq> set ''0123456789abcdef''"
    using Cons by simp
  moreover have "lowercase_hex (b # bs) =
      hex_digit_lower (b div 16) # hex_digit_lower (b mod 16) # lowercase_hex bs"
    by (simp add: lowercase_hex_def)
  ultimately show ?case by (simp del: set_simps add: list.set(2))
qed

lemma digest_bytes_small: "\<forall>b \<in> set (digest_bytes ws). b < 256"
  by (induction ws) (simp_all add: digest_bytes_def)

lemma length_lowercase_hex: "length (lowercase_hex bs) = 2 * length bs"
  by (induction bs) (simp_all add: lowercase_hex_def)

lemma length_digest_bytes: "length (digest_bytes ws) = 4 * length ws"
  by (induction ws) (simp_all add: digest_bytes_def)

lemma length_SHA1: "length (SHA1 s) = 5"
  by (simp add: SHA1_def Let_def split: prod.splits)

lemma lower_char_hex: "c \<in> set ''0123456789abcdef'' \<Longrightarrow> lower_char c = c"
  by (auto simp: lower_char_def)

lemma toLowerCase_hex: "set s \<subseteq> set ''0123456789abcdef'' \<Longrightarrow> toLowerCase s = s"
  unfolding toLowerCase_def by (rule map_idI) (use lower_char_hex in blast)

section \<open>Strings as UTF-8\<close>

lemma utf8_encode_plain: "surrogate_free s \<Longrightarrow> utf8_encode s = Inr s"
  by (induction s rule: utf8_encode.induct) simp_all

lemma utf8_encode_well_formed: "isl (utf8_encode s) = (\<not> well_formed s)"
proof (induction s rule: utf8_encode.induct)
  case (1 a b c s)
  show ?case
  proof (cases "high_surrogate a b")
    case True
    show ?thesis
    proof (cases s)
      case Nil
      with True show ?thesis by simp
    next
      case (Cons d s1)
      show ?thesis
      proof (cases s1)
        case Nil
        with True Cons show ?thesis by simp
      next
        case c2: (Cons e s2)
        show ?thesis
        proof (cases s2)
          case Nil
          with True Cons c2 show ?thesis by simp
        next
          case c3: (Cons f t)
          show ?thesis
          proof (cases "low_surrogate d e")
            case l: True
            from "1.IH"(1) [OF True Cons c2 c3 l] True Cons c2 c3 l show ?thesis
              by (cases "utf8_encode t") simp_all
          next
            case False
            with True Cons c2 c3 show ?thesis by simp
          qed
        qed
      qed
    qed
  next
    case False
    show ?thesis
    proof (cases "low_surrogate a b")
      case True
      with False show ?thesis by simp
    next
      case l: False
      from "1.IH"(2) [OF False l] False l show ?thesis
        by (cases "utf8_encode (b # c # s)") simp_all
    qed
  qed
qed simp_all

lemma utf8_encode_error: "utf8_encode s = Inl e \<Longrightarrow> \<not> well_formed s"
  using utf8_encode_well_formed [of s] by simp

lemma ascii_surrogate_free:
  "\<forall>c \<in> set s. (of_char c :: nat) < 128 \<Longrightarrow> surrogate_free s"
  by (induction s rule: surrogate_free.induct)
     (auto simp: high_surrogate_def low_surrogate_def)

lemma digits_ascii: "\<forall>c \<in> set (digits n). (of_char c :: nat) < 128"
proof (induction n rule: digits.induct)
  case (1 n)
  have c: "d < 10 \<Longrightarrow> (of_char (digit_char d) :: nat) < 128" for d
    by (simp add: digit_char_def)
  show ?case
  proof (cases "n < 10")
    case True
    then have "digits n = [digit_char n]" by (subst digits.simps) simp
    with c [OF True] show ?thesis by simp
  next
    case False
    then have "digits n = digits (n div 10) @ [digit_char (n mod 10)]"
      by (subst digits.simps) simp
    with "1.IH" [OF False] c [of "n mod 10"] show ?thesis by simp
  qed
qed

lemma number_toString_ascii: "\<forall>c \<in> set (number_toString n). (of_char c :: nat) < 128"
  using digits_ascii by (simp add: number_toString_def)

section \<open>The signature's text\<close>

lemma signature_hex:
  "generateSignature salt tok sec =
     (case to_string tok of
        Inl e \<Rightarrow> Inl e
      | Inr t \<Rightarrow>
         (case to_string sec of
            Inl e \<Rightarrow> Inl e
          | Inr s \<Rightarrow>
             (case utf8_encode (salt @ t @ s) of
                Inl e \<Rightarrow> Inl e
              | Inr bytes \<Rightarrow> Inr (lowercase_hex (digest_bytes (SHA1 bytes))))))"
proof -
  have "toLowerCase (lowercase_hex (digest_bytes ws)) = lowercase_hex (digest_bytes ws)" for ws
    by (rule toLowerCase_hex) (rule set_lowercase_hex, rule digest_bytes_small)
  then show ?thesis
    by (simp add: generateSignature_def CryptoJS_SHA1_def hex_stringify_arith
        split: sum.splits)
qed

lemma length_digest_hex: "length (lowercase_hex (digest_bytes (SHA1 bytes))) = 40"
  by (simp add: length_lowercase_hex length_digest_bytes length_SHA1)

lemma signature_isl:
  "isl (generateSignature salt tok sec) =
     (isl (to_string tok) \<or> isl (to_string sec)
      \<or> (\<exists>t s. to_string tok = Inr t \<and> to_string sec = Inr s \<and> \<not> well_formed (salt @ t @ s)))"
  by (auto simp: signature_hex utf8_encode_well_formed [symmetric] split: sum.splits)

lemma signature_needs_token: "generateSignature salt tok sec = Inr sg \<Longrightarrow> \<not> isl (to_string tok)"
  by (auto simp: generateSignature_def split: sum.splits)

lemma length_signature: "generateSignature salt tok sec = Inr sg \<Longrightarrow> length sg = 40"
  by (auto simp: signature_hex length_digest_hex split: sum.splits)

lemma signature_without_session:
  "generateSignature (number_toString n) JNull JNull =
     Inr (lowercase_hex (digest_bytes (SHA1 (number_toString n @ ''nullnull''))))"
proof -
  have "\<forall>c \<in> set (number_toString n @ ''nullnull''). (of_char c :: nat) < 128"
    using number_toString_ascii [of n] by simp
  then have "utf8_encode (number_toString n @ ''nullnull'') = Inr (number_toString n @ ''nullnull'')"
    by (intro utf8_encode_plain ascii_surrogate_free)
  then show ?thesis by (simp add: signature_hex)
qed

lemma signature_no_session:
  "token st = JNull \<Longrightarrow> secret st = JNull \<Longrightarrow>
   \<not> isl (generateSignature (number_toString (clock st)) (token st) (secret st))"
  by (simp add: signature_without_session)

section \<open>Requests\<close>

lemma set_own_keys_order: "set (own_keys_order ps) = set ps"
  by (auto simp: own_keys_order_def)

lemma search_params_isl: "isl (search_params ps) = (\<exists>v \<in> snd ` set ps. isl (to_string v))"
proof (induction ps rule: search_params.induct)
  case 1
  show ?case by simp
next
  case (2 k v ps)
  show ?case
  proof (cases "to_string v")
    case (Inl e)
    then show ?thesis by simp
  next
    case (Inr s)
    with "2.IH" [OF Inr] show ?thesis by (cases "search_params ps") simp_all
  qed
qed

lemma toQueryString_isl: "isl (toQueryString ps) = (\<exists>v \<in> snd ` set ps. isl (to_string v))"
proof -
  have "isl (toQueryString ps) = isl (search_params (own_keys_order ps))"
    by (simp add: toQueryString_def split: sum.splits)
  then show ?thesis by (simp add: search_params_isl set_own_keys_order)
qed

lemma buildParams_isl:
  "isl (buildParams params st) =
     isl (generateSignature (number_toString (clock st)) (token st) (secret st))"
  by (simp add: buildParams_def Let_def split: sum.splits)

lemma buildParams_built:
  "generateSignature (number_toString (clock st)) (token st) (secret st) = Inr sg \<Longrightarrow>
   buildParams params st = Inr (spread (baseParams sg (number_toString (clock st)) st) params)"
  by (simp add: buildParams_def Let_def)

lemma buildParams_thrown:
  "generateSignature (number_toString (clock st)) (token st) (secret st) = Inl e \<Longrightarrow>
   buildParams params st = Inl e"
  by (simp add: buildParams_def Let_def)

lemma buildParams_empty:
  "generateSignature (number_toString (clock st)) (token st) (secret st) = Inr sg \<Longrightarrow>
   buildParams [] st = Inr (baseParams sg (number_toString (clock st)) st)"
  by (simp add: buildParams_built) (simp add: baseParams_def spread_def assign_def)

lemma distinct_baseParams: "distinct (map fst (baseParams sg salt st))"
  by (simp add: baseParams_def)

lemma lookup_merged:
  assumes "distinct (map fst params)" and "distinct (map fst base)"
  shows "map_of (spread base (spread [(''action'', JStr action)] params)) k =
     (case map_of params k of
        Some v \<Rightarrow> Some v
      | None \<Rightarrow> if k = ''action'' then Some (JStr action) else map_of base k)"
proof -
  have "map_of (rev (spread [(''action'', JStr action)] params)) =
        map_of (spread [(''action'', JStr action)] params)"
    by (rule map_of_rev_distinct) (rule distinct_spread)
  with assms show ?thesis
    by (simp add: map_of_spread [of base] map_of_spread [of "[(''action'', JStr action)]"]
        map_of_rev_distinct map_add_def split: option.splits)
qed

lemma lookup_absent:
  assumes "k \<notin> fst ` set params" and "distinct (map fst base)"
  shows "map_of (spread base params) k = map_of base k"
proof -
  from assms(1) have "map_of (rev params) k = None" by (simp add: map_of_eq_None_iff)
  with assms(2) show ?thesis
    by (simp add: map_of_spread map_of_rev_distinct map_add_def)
qed

lemma base_values:
  "(k, v) \<in> set (baseParams sg salt st) \<Longrightarrow> v = token st \<or> (\<exists>s. v = JStr s)"
  by (auto simp: baseParams_def)

lemma merged_values:
  assumes d: "distinct (map fst params)" and t: "\<not> isl (to_string (token st))"
  shows "(\<exists>v \<in> snd ` set (spread (baseParams sg salt st)
                               (spread [(''action'', JStr action)] params)). isl (to_string v))
     = (\<exists>v \<in> snd ` set params. isl (to_string v))"
    (is "?l = ?r")
proof
  let ?rp = "spread (baseParams sg salt st) (spread [(''action'', JStr action)] params)"
  note look = lookup_merged [OF d distinct_baseParams, of sg salt st action]
  assume ?l
  then obtain k v where kv: "(k, v) \<in> set ?rp" and thr: "isl (to_string v)" by auto
  have "distinct (map fst ?rp)" by (rule distinct_spread)
  with kv have m: "map_of ?rp k = Some v" by simp
  show ?r
  proof (cases "map_of params k")
    case (Some w)
    with m look [of k] have "w = v" by simp
    with Some have "(k, v) \<in> set params" by (simp add: map_of_SomeD)
    with thr show ?thesis by force
  next
    case None
    show ?thesis
    proof (cases "k = ''action''")
      case True
      with None m look [of k] have "v = JStr action" by simp
      with thr show ?thesis by simp
    next
      case False
      with None m look [of k] have "map_of (baseParams sg salt st) k = Some v" by simp
      then have "(k, v) \<in> set (baseParams sg salt st)" by (rule map_of_SomeD)
      then have "v = token st \<or> (\<exists>s. v = JStr s)" by (rule base_values)
      with thr t show ?thesis by auto
    qed
  qed
next
  let ?rp = "spread (baseParams sg salt st) (spread [(''action'', JStr action)] params)"
  note look = lookup_merged [OF d distinct_baseParams, of sg salt st action]
  assume ?r
  then obtain k v where kv: "(k, v) \<in> set params" and thr: "isl (to_string v)" by auto
  from d kv have "map_of params k = Some v" by simp
  with look [of k] have "map_of ?rp k = Some v" by simp
  then have "(k, v) \<in> set ?rp" by (rule map_of_SomeD)
  with thr show ?l by force
qed

lemma queryString_thrown:
  "generateSignature (number_toString (clock st)) (token st) (secret st) = Inl e \<Longrightarrow>
   queryString action params st = Inl e"
  by (simp add: queryString_def requestParams_def buildParams_thrown)

lemma queryString_isl:
  assumes "distinct (map fst params)"
  shows "isl (queryString action params st) =
     (isl (generateSignature (number_toString (clock st)) (token st) (secret st))
      \<or> (\<exists>v \<in> snd ` set params. isl (to_string v)))"
proof (cases "generateSignature (number_toString (clock st)) (token st) (secret st)")
  case (Inl e)
  then show ?thesis by (simp add: queryString_thrown)
next
  case (Inr sg)
  then have "\<not> isl (to_string (token st))" by (rule signature_needs_token)
  then have "(\<exists>v \<in> snd ` set (spread (baseParams sg (number_toString (clock st)) st)
                               (spread [(''action'', JStr action)] params)). isl (to_string v))
     = (\<exists>v \<in> snd ` set params. isl (to_string v))"
    by (rule merged_values [OF assms])
  with Inr show ?thesis
    by (simp only: queryString_def requestParams_def buildParams_built toQueryString_isl
        sum.case sum.disc simp_thms)
qed

lemma request_unbuilt:
  "queryString action params st = Inl e \<Longrightarrow>
   request action params st = (request_error e, st)"
  by (simp add: request_def)

lemma request_sent:
  "queryString action params st = Inr q \<Longrightarrow>
   sent (snd (request action params st)) =
     sent st @ [\<lparr>http_method = ''GET'', url = baseURL st @ ''?'' @ q,
                 headers = [(''Accept'', ''application/json'')], body = None\<rparr>]"
  by (simp add: request_def fetchWithTimeout_def fetch_def response_json_def Let_def
      split: sum.splits fetch_outcome.splits response.splits)

lemma request_sent_length:
  "length (sent (snd (request action params st))) =
     (if isl (queryString action params st) then length (sent st)
      else Suc (length (sent st)))"
  by (cases "queryString action params st") (simp_all add: request_unbuilt request_sent)

lemma request_count:
  "distinct (map fst params) \<Longrightarrow>
   length (sent (snd (request action params st))) =
     (if isl (generateSignature (number_toString (clock st)) (token st) (secret st))
         \<or> (\<exists>v \<in> snd ` set params. isl (to_string v))
      then length (sent st) else Suc (length (sent st)))"
  by (simp only: request_sent_length queryString_isl)

lemma request_session:
  "token (snd (request action params st)) = token st"
  "secret (snd (request action params st)) = secret st"
  "authTime (snd (request action params st)) = authTime st"
  "localStorage (snd (request action params st)) = localStorage st"
  "baseURL (snd (request action params st)) = baseURL st"
  by (simp_all add: request_def fetchWithTimeout_def fetch_def response_json_def Let_def
      split: sum.splits fetch_outcome.splits response.splits)

lemma request_timeout:
  "\<not> isl (queryString action params st) \<Longrightarrow>
   30000 < delay (net st (length (sent st))) \<Longrightarrow>
   fst (request action params st) = request_error (Error ''Request timeout'')"
  by (cases "queryString action params st")
     (simp_all add: request_def fetchWithTimeout_def Let_def)

lemma request_clock_timeout:
  "\<not> isl (queryString action params st) \<Longrightarrow>
   30000 < delay (net st (length (sent st))) \<Longrightarrow>
   clock (snd (request action params st)) = clock st + 30000"
  by (cases "queryString action params st")
     (simp_all add: request_def fetchWithTimeout_def Let_def)

lemma request_fails:
  "\<not> isl (queryString action params st) \<Longrightarrow>
   delay (net st (length (sent st))) \<le> 30000 \<Longrightarrow>
   outcome (net st (length (sent st))) = Fails m \<Longrightarrow>
   fst (request action params st) = request_error (Error m)"
  by (cases "queryString action params st")
     (simp_all add: request_def fetchWithTimeout_def fetch_def Let_def)

lemma request_clock_fails:
  "\<not> isl (queryString action params st) \<Longrightarrow>
   delay (net st (length (sent st))) \<le> 30000 \<Longrightarrow>
   outcome (net st (length (sent st))) = Fails m \<Longrightarrow>
   clock (snd (request action params st)) = clock st + int (delay (net st (length (sent st))))"
  by (cases "queryString action params st")
     (simp_all add: request_def fetchWithTimeout_def fetch_def Let_def)

lemma request_invalid:
  "\<not> isl (queryString action params st) \<Longrightarrow>
   delay (net st (length (sent st))) \<le> 30000 \<Longrightarrow>
   outcome (net st (length (sent st))) = Responds (Body_invalid m) \<Longrightarrow>
   fst (request action params st) = request_error (Error m)"
  by (cases "queryString action params st")
     (simp_all add: request_def fetchWithTimeout_def fetch_def Let_def response_json_def)

lemma request_json:
  "\<not> isl (queryString action params st) \<Longrightarrow>
   delay (net st (length (sent st))) \<le> 30000 \<Longrightarrow>
   outcome (net st (length (sent st))) = Responds (Body_json d) \<Longrightarrow>
   d \<noteq> JNull \<Longrightarrow> d \<noteq> JUndefined \<Longrightarrow>
   fst (request action params st) =
     (if property d ''err'' = JNum 0
      then \<lparr>success = True, data = property d ''dat'',
            message = property d ''desc'', error = JUndefined\<rparr>
      else \<lparr>success = False, data = property d ''dat'', message = JUndefined,
            error = js_or (property d ''desc'') (JStr ''Unknown error'')\<rparr>)"
  by (cases "queryString action params st")
     (simp_all add: request_def fetchWithTimeout_def fetch_def Let_def response_json_def
        get_member_def)

lemma request_clock_responds:
  "\<not> isl (queryString action params st) \<Longrightarrow>
   delay (net st (length (sent st))) \<le> 30000 \<Longrightarrow>
   outcome (net st (length (sent st))) = Responds resp \<Longrightarrow>
   clock (snd (request action params st)) =
     clock st + int (delay (net st (length (sent st))))
       + int (body_time st (length (sent st)))"
  by (cases "queryString action params st")
     (simp_all add: request_def fetchWithTimeout_def fetch_def Let_def response_json_def
        split: sum.splits response.splits)

lemma API_browser:
  "baseURL (API (browser n)) = ''http://android.shinemonitor.com/public/''"
  "token (API (browser n)) = JNull"
  "secret (API (browser n)) = JNull"
  "authTime (API (browser n)) = JNull"
  "localStorage (API (browser n)) = Map.empty"
  "storage_full (API (browser n)) = False"
  "clock (API (browser n)) = 1700000000000"
  "net (API (browser n)) = n"
  "body_time (API (browser n)) = (\<lambda>i. 0)"
  "sent (API (browser n)) = []"
  by (simp_all add: API_def browser_def)

lemma queryString_no_session:
  "token st = JNull \<Longrightarrow> secret st = JNull \<Longrightarrow> distinct (map fst params) \<Longrightarrow>
   isl (queryString action params st) = (\<exists>v \<in> snd ` set params. isl (to_string v))"
proof -
  assume t: "token st = JNull" and s: "secret st = JNull" and d: "distinct (map fst params)"
  from t s have "\<not> isl (generateSignature (number_toString (clock st)) (token st) (secret st))"
    by (rule signature_no_session)
  with queryString_isl [OF d, of action st] show ?thesis by simp
qed

lemma queryString_browser:
  "distinct (map fst params) \<Longrightarrow>
   isl (queryString action params (API (browser n)))
     = (\<exists>v \<in> snd ` set params. isl (to_string v))"
  by (rule queryString_no_session) (simp_all add: API_browser)

section \<open>Login, logout and runs\<close>

lemma login_form:
  obtains form where
    "toQueryString
       [(''action'', JStr ''authSource''), (''usr'', JStr email), (''pwd'', JStr password),
        (''company-key'', JStr companyKey), (''source'', JStr ''android'')] = Inr form"
proof -
  have "\<not> isl (toQueryString
       [(''action'', JStr ''authSource''), (''usr'', JStr email), (''pwd'', JStr password),
        (''company-key'', JStr companyKey), (''source'', JStr ''android'')])"
    by (simp add: toQueryString_isl)
  then show ?thesis using that
    by (cases "toQueryString
       [(''action'', JStr ''authSource''), (''usr'', JStr email), (''pwd'', JStr password),
        (''company-key'', JStr companyKey), (''source'', JStr ''android'')]") simp_all
qed

lemma login_sent:
  "length (sent (snd (login email password st))) = Suc (length (sent st))"
proof -
  obtain form where f: "toQueryString
       [(''action'', JStr ''authSource''), (''usr'', JStr email), (''pwd'', JStr password),
        (''company-key'', JStr companyKey), (''source'', JStr ''android'')] = Inr form"
    by (rule login_form)
  show ?thesis
    by (simp add: login_def f fetch_def response_json_def setLocalStorage_def Let_def
        split: sum.splits fetch_outcome.splits response.splits)
qed

lemma login_net: "net (snd (login email password st)) = net st"
proof -
  obtain form where f: "toQueryString
       [(''action'', JStr ''authSource''), (''usr'', JStr email), (''pwd'', JStr password),
        (''company-key'', JStr companyKey), (''source'', JStr ''android'')] = Inr form"
    by (rule login_form)
  show ?thesis
    by (simp add: login_def f fetch_def response_json_def setLocalStorage_def Let_def
        split: sum.splits fetch_outcome.splits response.splits)
qed

lemma login_fails:
  assumes "outcome (net st (length (sent st))) = Fails m"
  shows "fst (login email password st) = login_error (Error m)"
    and "token (snd (login email password st)) = token st"
    and "secret (snd (login email password st)) = secret st"
    and "authTime (snd (login email password st)) = authTime st"
    and "localStorage (snd (login email password st)) = localStorage st"
proof -
  obtain form where f: "toQueryString
       [(''action'', JStr ''authSource''), (''usr'', JStr email), (''pwd'', JStr password),
        (''company-key'', JStr companyKey), (''source'', JStr ''android'')] = Inr form"
    by (rule login_form)
  show "fst (login email password st) = login_error (Error m)"
    and "token (snd (login email password st)) = token st"
    and "secret (snd (login email password st)) = secret st"
    and "authTime (snd (login email password st)) = authTime st"
    and "localStorage (snd (login email password st)) = localStorage st"
    using assms by (simp_all add: login_def f fetch_def Let_def)
qed

lemma login_rejected:
  assumes "outcome (net st (length (sent st))) = Responds (Body_json d)"
    and "d \<noteq> JNull" and "d \<noteq> JUndefined"
    and "\<not> (property d ''err'' = JNum 0 \<and> truthy (property d ''dat''))"
  shows "fst (login email password st) =
      \<lparr>success = False, data = JUndefined, message = JUndefined,
       error = js_or (property d ''desc'') (JStr ''Login failed'')\<rparr>"
    and "token (snd (login email password st)) = token st"
    and "secret (snd (login email password st)) = secret st"
    and "authTime (snd (login email password st)) = authTime st"
    and "localStorage (snd (login email password st)) = localStorage st"
proof -
  obtain form where f: "toQueryString
       [(''action'', JStr ''authSource''), (''usr'', JStr email), (''pwd'', JStr password),
        (''company-key'', JStr companyKey), (''source'', JStr ''android'')] = Inr form"
    by (rule login_form)
  show "fst (login email password st) =
      \<lparr>success = False, data = JUndefined, message = JUndefined,
       error = js_or (property d ''desc'') (JStr ''Login failed'')\<rparr>"
    and "token (snd (login email password st)) = token st"
    and "secret (snd (login email password st)) = secret st"
    and "authTime (snd (login email password st)) = authTime st"
    and "localStorage (snd (login email password st)) = localStorage st"
    using assms
    by (auto simp add: login_def f fetch_def Let_def response_json_def get_member_def)
qed

lemma login_accepted:
  assumes "outcome (net st (length (sent st))) = Responds (Body_json d)"
    and "d \<noteq> JNull" and "d \<noteq> JUndefined"
    and "property d ''err'' = JNum 0" and "truthy (property d ''dat'')"
  shows "fst (login email password st) =
      \<lparr>success = True, data = property d ''dat'', message = JUndefined, error = JUndefined\<rparr>"
    and "token (snd (login email password st)) = property (property d ''dat'') ''token''"
    and "secret (snd (login email password st)) = property (property d ''dat'') ''secret''"
    and "clock (snd (login email password st)) =
           clock st + int (delay (net st (length (sent st))))
             + int (body_time st (length (sent st)))"
    and "authTime (snd (login email password st)) =
           JNum (clock st + int (delay (net st (length (sent st))))
                   + int (body_time st (length (sent st))))"
    and "localStorage (snd (login email password st)) =
      (if storage_full st then localStorage st
       else (localStorage st)(''api_credentials'' \<mapsto> json_item (JObj
              [(''token'', property (property d ''dat'') ''token''),
               (''secret'', property (property d ''dat'') ''secret''),
               (''authTime'', JNum (clock st + int (delay (net st (length (sent st))))
                                     + int (body_time st (length (sent st))))),
               (''userid'', property (property d ''dat'') ''userid''),
               (''email'', JStr email)])))"
proof -
  obtain form where f: "toQueryString
       [(''action'', JStr ''authSource''), (''usr'', JStr email), (''pwd'', JStr password),
        (''company-key'', JStr companyKey), (''source'', JStr ''android'')] = Inr form"
    by (rule login_form)
  show "fst (login email password st) =
      \<lparr>success = True, data = property d ''dat'', message = JUndefined, error = JUndefined\<rparr>"
    and "token (snd (login email password st)) = property (property d ''dat'') ''token''"
    and "secret (snd (login email password st)) = property (property d ''dat'') ''secret''"
    and "clock (snd (login email password st)) =
           clock st + int (delay (net st (length (sent st))))
             + int (body_time st (length (sent st)))"
    and "authTime (snd (login email password st)) =
           JNum (clock st + int (delay (net st (length (sent st))))
                   + int (body_time st (length (sent st))))"
    and "localStorage (snd (login email password st)) =
      (if storage_full st then localStorage st
       else (localStorage st)(''api_credentials'' \<mapsto> json_item (JObj
              [(''token'', property (property d ''dat'') ''token''),
               (''secret'', property (property d ''dat'') ''secret''),
               (''authTime'', JNum (clock st + int (delay (net st (length (sent st))))
                                     + int (body_time st (length (sent st))))),
               (''userid'', property (property d ''dat'') ''userid''),
               (''email'', JStr email)])))"
    using assms
    by (simp_all add: login_def f fetch_def Let_def response_json_def get_member_def
        setLocalStorage_def)
qed

lemma login_keeps_or_adopts:
  "(token (snd (login email password st)) = token st
      \<and> secret (snd (login email password st)) = secret st)
   \<or> (\<exists>d. outcome (net st (length (sent st))) = Responds (Body_json d)
         \<and> property d ''err'' = JNum 0 \<and> truthy (property d ''dat'')
         \<and> token (snd (login email password st)) = property (property d ''dat'') ''token''
         \<and> secret (snd (login email password st)) = property (property d ''dat'') ''secret'')"
proof -
  obtain form where f: "toQueryString
       [(''action'', JStr ''authSource''), (''usr'', JStr email), (''pwd'', JStr password),
        (''company-key'', JStr companyKey), (''source'', JStr ''android'')] = Inr form"
    by (rule login_form)
  show ?thesis
    by (simp add: login_def f fetch_def Let_def response_json_def get_member_def
        setLocalStorage_def
        split: sum.splits fetch_outcome.splits response.splits)
qed

lemma login_storage:
  "localStorage (snd (login email password st)) = localStorage st
   \<or> (\<exists>v. localStorage (snd (login email password st))
         = (localStorage st)(''api_credentials'' \<mapsto> v))"
proof -
  obtain form where f: "toQueryString
       [(''action'', JStr ''authSource''), (''usr'', JStr email), (''pwd'', JStr password),
        (''company-key'', JStr companyKey), (''source'', JStr ''android'')] = Inr form"
    by (rule login_form)
  show ?thesis
    by (auto simp add: login_def f fetch_def Let_def response_json_def get_member_def
        setLocalStorage_def
        split: sum.splits fetch_outcome.splits response.splits)
qed

lemma truthy_present: "truthy v \<Longrightarrow> present v"
  by (cases v) (simp_all add: present_def)

lemma init_net: "net (snd (init u st)) = net st"
  by (simp add: init_def getLocalStorage_def get_member_def Let_def
      split: option.splits stored.splits)

lemma init_keeps_or_adopts:
  "(token (snd (init u st)) = token st \<and> secret (snd (init u st)) = secret st)
   \<or> (truthy (token (snd (init u st))) \<and> truthy (secret (snd (init u st))))"
  by (simp add: init_def getLocalStorage_def get_member_def Let_def js_and_def
      split: option.splits stored.splits)

lemma logout_fields:
  "token (logout st) = JNull" "secret (logout st) = JNull" "authTime (logout st) = JNull"
  "localStorage (logout st) = (localStorage st)(''api_credentials'' := None)"
  "sent (logout st) = sent st" "net (logout st) = net st"
  by (simp_all add: logout_def removeLocalStorage_def)

lemma step_net: "net (step op st) = net st"
  by (cases op) (simp_all add: init_net login_net logout_fields)

lemma step_paired:
  assumes h: "\<And>i d. outcome (net st i) = Responds (Body_json d) \<Longrightarrow>
      property d ''err'' = JNum 0 \<Longrightarrow> truthy (property d ''dat'') \<Longrightarrow>
      present (property (property d ''dat'') ''token'')
        = present (property (property d ''dat'') ''secret'')"
    and inv: "present (token st) = present (secret st)"
  shows "present (token (step op st)) = present (secret (step op st))"
proof (cases op)
  case (Init u)
  with init_keeps_or_adopts [of u st] inv show ?thesis
    by (auto simp: truthy_present)
next
  case (Login email password)
  with login_keeps_or_adopts [of email password st] inv h show ?thesis
    by auto
next
  case Logout
  then show ?thesis by (simp add: logout_fields)
qed

lemma run_paired:
  "(\<And>i d. outcome (net st i) = Responds (Body_json d) \<Longrightarrow>
      property d ''err'' = JNum 0 \<Longrightarrow> truthy (property d ''dat'') \<Longrightarrow>
      present (property (property d ''dat'') ''token'')
        = present (property (property d ''dat'') ''secret'')) \<Longrightarrow>
   present (token st) = present (secret st) \<Longrightarrow>
   present (token (run ops st)) = present (secret (run ops st))"
proof (induction ops arbitrary: st)
  case Nil
  then show ?case by (simp add: run_def)
next
  case (Cons op ops)
  have "present (token (run ops (step op st))) = present (secret (run ops (step op st)))"
  proof (rule Cons.IH)
    show "present (token (step op st)) = present (secret (step op st))"
      using Cons.prems by (rule step_paired)
  next
    fix i d
    assume "outcome (net (step op st) i) = Responds (Body_json d)"
      and "property d ''err'' = JNum 0" and "truthy (property d ''dat'')"
    then show "present (property (property d ''dat'') ''token'')
        = present (property (property d ''dat'') ''secret'')"
      using Cons.prems(1) by (simp add: step_net)
  qed
  then show ?case by (simp add: run_def)
qed


lemma well_formed_ascii_Cons:
  "(of_char c :: nat) < 128 \<Longrightarrow> well_formed (c # s) = well_formed s"
proof -
  assume c: "(of_char c :: nat) < 128"
  show ?thesis
  proof (cases s)
    case Nil
    show ?thesis by (simp add: Nil)
  next
    case (Cons b s1)
    show ?thesis
    proof (cases s1)
      case Nil
      with Cons show ?thesis by simp
    next
      case c2: (Cons d s2)
      with Cons c show ?thesis
        by (simp add: high_surrogate_def low_surrogate_def)
    qed
  qed
qed

lemma well_formed_ascii_prefix:
  "\<forall>c \<in> set a. (of_char c :: nat) < 128 \<Longrightarrow> well_formed (a @ s) = well_formed s"
  by (induction a) (simp_all add: well_formed_ascii_Cons)

lemma signature_with_session:
  "isl (generateSignature (number_toString n) (JStr tok) (JStr sec)) = (\<not> well_formed (tok @ sec))"
  using well_formed_ascii_prefix [OF number_toString_ascii, of n "tok @ sec"]
  by (simp add: signature_isl)

lemma requestParams_built:
  "generateSignature (number_toString (clock st)) (token st) (secret st) = Inr sg \<Longrightarrow>
   requestParams action params st =
     Inr (spread (baseParams sg (number_toString (clock st)) st)
            (spread [(''action'', JStr action)] params))"
  by (simp add: requestParams_def buildParams_built)

lemma requestParams_no_session:
  "token st = JNull \<Longrightarrow> secret st = JNull \<Longrightarrow>
   requestParams action params st =
     Inr (spread (baseParams
                    (lowercase_hex (digest_bytes (SHA1 (number_toString (clock st) @ ''nullnull''))))
                    (number_toString (clock st)) st)
            (spread [(''action'', JStr action)] params))"
  by (rule requestParams_built) (simp add: signature_without_session)

lemma property_merged:
  "distinct (map fst params) \<Longrightarrow>
   property (JObj (spread (baseParams sg salt st)
                     (spread [(''action'', JStr action)] params))) k =
     (case map_of params k of
        Some v \<Rightarrow> v
      | None \<Rightarrow> if k = ''action'' then JStr action
                else property (JObj (baseParams sg salt st)) k)"
  by (simp add: lookup_merged distinct_baseParams split: option.splits)

section \<open>The signature\<close>

text \<open>
  C1. For all strings \<open>salt\<close>, \<open>tok\<close> (the token) and \<open>sec\<close> (the secret),
  \<^verbatim>\<open>generateSignature\<close> returns the lowercase hexadecimal representation of the SHA-1
  digest of \<open>salt + tok + sec\<close>, taken over the UTF-8 bytes of that string: forty
  characters, each a digit or a letter from \<^verbatim>\<open>a\<close> to \<^verbatim>\<open>f\<close>. The result is a function
  of the three arguments alone (it reads no state, so equal arguments give equal
  results). It is defined on every well-formed string: the call throws exactly when the
  concatenation holds a surrogate that is not half of a pair, a string that has no UTF-8
  bytes. Where the strings hold no surrogate at all, the bytes are the string itself.
\<close>

theorem generateSignature_sha1_hex:
  "generateSignature salt (JStr tok) (JStr sec) =
     (case utf8_encode (salt @ tok @ sec) of
        Inl e \<Rightarrow> Inl e
      | Inr bytes \<Rightarrow> Inr (lowercase_hex (digest_bytes (SHA1 bytes))))
   \<and> isl (generateSignature salt (JStr tok) (JStr sec)) = (\<not> well_formed (salt @ tok @ sec))
   \<and> (surrogate_free (salt @ tok @ sec) \<longrightarrow>
        generateSignature salt (JStr tok) (JStr sec) =
          Inr (lowercase_hex (digest_bytes (SHA1 (salt @ tok @ sec)))))
   \<and> (generateSignature salt (JStr tok) (JStr sec) = Inr sg \<longrightarrow>
        length sg = 40 \<and> set sg \<subseteq> set ''0123456789abcdef'')"
proof (intro conjI impI)
  show "generateSignature salt (JStr tok) (JStr sec) =
     (case utf8_encode (salt @ tok @ sec) of
        Inl e \<Rightarrow> Inl e
      | Inr bytes \<Rightarrow> Inr (lowercase_hex (digest_bytes (SHA1 bytes))))"
    by (simp add: signature_hex)
  show "isl (generateSignature salt (JStr tok) (JStr sec)) = (\<not> well_formed (salt @ tok @ sec))"
    by (simp add: signature_isl)
next
  assume "surrogate_free (salt @ tok @ sec)"
  then have "utf8_encode (salt @ tok @ sec) = Inr (salt @ tok @ sec)"
    by (rule utf8_encode_plain)
  then show "generateSignature salt (JStr tok) (JStr sec) =
          Inr (lowercase_hex (digest_bytes (SHA1 (salt @ tok @ sec))))"
    by (simp add: signature_hex)
next
  assume a: "generateSignature salt (JStr tok) (JStr sec) = Inr sg"
  then show "length sg = 40" by (rule length_signature)
  from a obtain bytes where "sg = lowercase_hex (digest_bytes (SHA1 bytes))"
    by (auto simp: signature_hex split: sum.splits)
  moreover have "set (lowercase_hex (digest_bytes (SHA1 bytes))) \<subseteq> set ''0123456789abcdef''"
    by (rule set_lowercase_hex) (rule digest_bytes_small)
  ultimately show "set sg \<subseteq> set ''0123456789abcdef''" by simp
qed

text \<open>
  The theorem for the salt \<^verbatim>\<open>1700000000000\<close>, the token \<^verbatim>\<open>T\<close> and the secret
  \<^verbatim>\<open>S\<close>.
\<close>

theorem generateSignature_sha1_hex_witness:
  "generateSignature ''1700000000000'' (JStr ''T'') (JStr ''S'') =
     Inr (lowercase_hex (digest_bytes (SHA1 ''1700000000000TS'')))
   \<and> length (lowercase_hex (digest_bytes (SHA1 ''1700000000000TS''))) = 40
   \<and> \<not> isl (generateSignature ''1700000000000'' (JStr ''T'') (JStr ''S''))"
proof -
  have sf: "surrogate_free (''1700000000000'' @ ''T'' @ ''S'')"
    by (simp add: high_surrogate_def low_surrogate_def)
  note t = generateSignature_sha1_hex [of "''1700000000000''" "''T''" "''S''"
      "lowercase_hex (digest_bytes (SHA1 ''1700000000000TS''))"]
  from t sf have a: "generateSignature ''1700000000000'' (JStr ''T'') (JStr ''S'') =
     Inr (lowercase_hex (digest_bytes (SHA1 ''1700000000000TS'')))"
    by simp
  with t have b: "length (lowercase_hex (digest_bytes (SHA1 ''1700000000000TS''))) = 40"
    by blast
  from a b show ?thesis by simp
qed

section \<open>The response envelope\<close>

text \<open>
  C2, as the client has it. When the request has gone out (building its parameters and
  its query string did not throw), the response arrives within 30000 ms and its body is
  a JSON value \<open>d\<close> other than \<^verbatim>\<open>null\<close>, the result of \<^verbatim>\<open>request\<close> is a success
  exactly when \<open>d.err\<close> is the number 0. On success it carries \<open>d.dat\<close> as data
  (whatever it is, \<^verbatim>\<open>null\<close> included) and \<open>d.desc\<close> as message. On failure it carries
  \<open>d.dat\<close> as data, and as error \<open>d.desc\<close> when that is truthy and the text
  \<^verbatim>\<open>Unknown error\<close> when it is not (an empty or missing description).
\<close>

theorem request_decodes_envelope:
  assumes "\<not> isl (queryString action params st)"
    and "net st (length (sent st)) = \<lparr>delay = t, outcome = Responds (Body_json d)\<rparr>"
    and "t \<le> 30000" and "d \<noteq> JNull" and "d \<noteq> JUndefined"
  shows "success (fst (request action params st)) = (property d ''err'' = JNum 0)
    \<and> data (fst (request action params st)) = property d ''dat''
    \<and> message (fst (request action params st)) =
        (if property d ''err'' = JNum 0 then property d ''desc'' else JUndefined)
    \<and> error (fst (request action params st)) =
        (if property d ''err'' = JNum 0 then JUndefined
         else if truthy (property d ''desc'') then property d ''desc''
         else JStr ''Unknown error'')"
  using assms by (simp add: request_json js_or_def)

text \<open>
  The theorem at an envelope with error code 0 and a \<^verbatim>\<open>null\<close> payload, and at one with
  error code 260 and a description.
\<close>

theorem request_decodes_envelope_witness:
  "success (fst (request ''queryPlantInfo'' [(''plantid'', JStr ''7'')]
      (API (browser (\<lambda>i. \<lparr>delay = 120, outcome = Responds (Body_json
        (JObj [(''err'', JNum 0), (''desc'', JStr ''ok''), (''dat'', JNull)]))\<rparr>)))))
   \<and> data (fst (request ''queryPlantInfo'' [(''plantid'', JStr ''7'')]
      (API (browser (\<lambda>i. \<lparr>delay = 120, outcome = Responds (Body_json
        (JObj [(''err'', JNum 0), (''desc'', JStr ''ok''), (''dat'', JNull)]))\<rparr>))))) = JNull
   \<and> error (fst (request ''queryPlantInfo'' [(''plantid'', JStr ''7'')]
      (API (browser (\<lambda>i. \<lparr>delay = 120, outcome = Responds (Body_json
        (JObj [(''err'', JNum 260), (''desc'', JStr ''no device''), (''dat'', JNull)]))\<rparr>)))))
       = JStr ''no device''"
  using request_decodes_envelope [of
      "''queryPlantInfo''" "[(''plantid'', JStr ''7'')]"
      "API (browser (\<lambda>i. \<lparr>delay = 120, outcome = Responds (Body_json
        (JObj [(''err'', JNum 0), (''desc'', JStr ''ok''), (''dat'', JNull)]))\<rparr>))"
      120 "JObj [(''err'', JNum 0), (''desc'', JStr ''ok''), (''dat'', JNull)]"]
    request_decodes_envelope [of
      "''queryPlantInfo''" "[(''plantid'', JStr ''7'')]"
      "API (browser (\<lambda>i. \<lparr>delay = 120, outcome = Responds (Body_json
        (JObj [(''err'', JNum 260), (''desc'', JStr ''no device''), (''dat'', JNull)]))\<rparr>))"
      120 "JObj [(''err'', JNum 260), (''desc'', JStr ''no device''), (''dat'', JNull)]"]
  by (simp add: API_browser queryString_browser)

text \<open>
  C2 as the specification words it fails where the description is empty: for the envelope
  \<^verbatim>\<open>{"err":1,"desc":"","dat":null}\<close> the error of the result is \<^verbatim>\<open>Unknown error\<close>, not
  the envelope's description.
\<close>

theorem request_empty_desc_counterexample:
  "error (fst (request ''queryAccountInfo'' []
      (API (browser (\<lambda>i. \<lparr>delay = 120, outcome = Responds (Body_json
        (JObj [(''err'', JNum 1), (''desc'', JStr ''''), (''dat'', JNull)]))\<rparr>)))))
     = JStr ''Unknown error''
   \<and> property (JObj [(''err'', JNum 1), (''desc'', JStr ''''), (''dat'', JNull)]) ''desc''
     = JStr ''''"
  by (subst request_json
        [where d = "JObj [(''err'', JNum 1), (''desc'', JStr ''''), (''dat'', JNull)]"])
     (simp_all add: API_browser queryString_browser js_or_def)

section \<open>No call is retried\<close>

text \<open>
  C4, as the client has it. No call is ever retried: \<^verbatim>\<open>request\<close> issues at most one HTTP
  request whatever the action, a read or \<^verbatim>\<open>ctrlDevice\<close>, and whatever the network does
  with it. It issues none when building the parameters or the query string throws (the
  call then fails at once, with the message of what was thrown, or \<^verbatim>\<open>Network error\<close>
  when that is empty), and exactly one otherwise. A network failure surfaces at once as
  a failed result: when more than 30000 ms pass without an answer the error is
  \<^verbatim>\<open>Request timeout\<close>; when \<^verbatim>\<open>fetch\<close> rejects within 30000 ms the error is the
  rejection's message, or \<^verbatim>\<open>Network error\<close> when that is empty.
\<close>

theorem request_never_retried:
  "length (sent (snd (request action params st))) =
     (if isl (queryString action params st) then length (sent st)
      else Suc (length (sent st)))
   \<and> length (sent (snd (controlDevice pn devcode devaddr sn ident val st))) =
     (if isl (queryString ''ctrlDevice''
                [(''pn'', pn), (''devcode'', devcode), (''devaddr'', devaddr), (''sn'', sn),
                 (''id'', ident), (''val'', val)] st)
      then length (sent st) else Suc (length (sent st)))
   \<and> (queryString action params st = Inl e \<longrightarrow>
        request action params st =
          (\<lparr>success = False, data = JUndefined, message = JUndefined,
            error = JStr (if error_message e = [] then ''Network error''
                          else error_message e)\<rparr>, st))
   \<and> (\<not> isl (queryString action params st)
        \<and> 30000 < delay (net st (length (sent st))) \<longrightarrow>
        fst (request action params st) =
          \<lparr>success = False, data = JUndefined, message = JUndefined,
           error = JStr ''Request timeout''\<rparr>)
   \<and> (\<not> isl (queryString action params st)
        \<and> delay (net st (length (sent st))) \<le> 30000
        \<and> outcome (net st (length (sent st))) = Fails m \<longrightarrow>
        fst (request action params st) =
          \<lparr>success = False, data = JUndefined, message = JUndefined,
           error = JStr (if m = [] then ''Network error'' else m)\<rparr>)"
proof (intro conjI impI)
  show "length (sent (snd (request action params st))) =
     (if isl (queryString action params st) then length (sent st)
      else Suc (length (sent st)))"
    by (rule request_sent_length)
  show "length (sent (snd (controlDevice pn devcode devaddr sn ident val st))) =
     (if isl (queryString ''ctrlDevice''
                [(''pn'', pn), (''devcode'', devcode), (''devaddr'', devaddr), (''sn'', sn),
                 (''id'', ident), (''val'', val)] st)
      then length (sent st) else Suc (length (sent st)))"
    unfolding controlDevice_def by (rule request_sent_length)
next
  assume "queryString action params st = Inl e"
  then show "request action params st =
          (\<lparr>success = False, data = JUndefined, message = JUndefined,
            error = JStr (if error_message e = [] then ''Network error''
                          else error_message e)\<rparr>, st)"
    by (simp add: request_unbuilt request_error_def js_or_def)
next
  assume "\<not> isl (queryString action params st)
        \<and> 30000 < delay (net st (length (sent st)))"
  then show "fst (request action params st) =
          \<lparr>success = False, data = JUndefined, message = JUndefined,
           error = JStr ''Request timeout''\<rparr>"
    by (simp add: request_timeout request_error_def js_or_def)
next
  assume "\<not> isl (queryString action params st)
        \<and> delay (net st (length (sent st))) \<le> 30000
        \<and> outcome (net st (length (sent st))) = Fails m"
  then show "fst (request action params st) =
          \<lparr>success = False, data = JUndefined, message = JUndefined,
           error = JStr (if m = [] then ''Network error'' else m)\<rparr>"
    by (simp add: request_fails request_error_def js_or_def)
qed

text \<open>
  The theorem for a control command and a read on a network that does not answer for
  45 seconds, for a read whose fetch is rejected after 80 ms, for one whose fetch is
  rejected after exactly 30000 ms, and for a read whose parameter cannot be converted to
  a string, which sends nothing.
\<close>

theorem request_never_retried_witness:
  "length (sent (snd (controlDevice (JStr ''P'') (JNum 2304) (JNum 1) (JStr ''S'')
      (JStr ''bse_output_source_priority'') (JStr ''48'')
      (API (browser (\<lambda>i. \<lparr>delay = 45000, outcome = Fails ''Failed to fetch''\<rparr>)))))) = 1
   \<and> fst (request ''queryAccountInfo'' []
        (API (browser (\<lambda>i. \<lparr>delay = 45000, outcome = Fails ''Failed to fetch''\<rparr>)))) =
       \<lparr>success = False, data = JUndefined, message = JUndefined,
        error = JStr ''Request timeout''\<rparr>
   \<and> fst (request ''queryAccountInfo'' []
        (API (browser (\<lambda>i. \<lparr>delay = 80, outcome = Fails ''Failed to fetch''\<rparr>)))) =
       \<lparr>success = False, data = JUndefined, message = JUndefined,
        error = JStr ''Failed to fetch''\<rparr>
   \<and> fst (request ''queryAccountInfo'' []
        (API (browser (\<lambda>i. \<lparr>delay = 30000, outcome = Fails ''Failed to fetch''\<rparr>)))) =
       \<lparr>success = False, data = JUndefined, message = JUndefined,
        error = JStr ''Failed to fetch''\<rparr>
   \<and> length (sent (snd (request ''queryPlantInfo''
        [(''plantid'', JObj [(''toString'', JNum 1)])]
        (API (browser (\<lambda>i. \<lparr>delay = 80, outcome = Fails ''Failed to fetch''\<rparr>)))))) = 0"
  using request_never_retried [of "''queryAccountInfo''" "[]"
      "API (browser (\<lambda>i. \<lparr>delay = 45000, outcome = Fails ''Failed to fetch''\<rparr>))"
      "JStr ''P''" "JNum 2304" "JNum 1" "JStr ''S''" "JStr ''bse_output_source_priority''"
      "JStr ''48''" "Error []" "[]"]
    request_never_retried [of "''queryAccountInfo''" "[]"
      "API (browser (\<lambda>i. \<lparr>delay = 80, outcome = Fails ''Failed to fetch''\<rparr>))"
      "JStr ''P''" "JNum 2304" "JNum 1" "JStr ''S''" "JStr ''bse_output_source_priority''"
      "JStr ''48''" "Error []" "''Failed to fetch''"]
    request_never_retried [of "''queryAccountInfo''" "[]"
      "API (browser (\<lambda>i. \<lparr>delay = 30000, outcome = Fails ''Failed to fetch''\<rparr>))"
      "JStr ''P''" "JNum 2304" "JNum 1" "JStr ''S''" "JStr ''bse_output_source_priority''"
      "JStr ''48''" "Error []" "''Failed to fetch''"]
    request_never_retried [of "''queryPlantInfo''"
      "[(''plantid'', JObj [(''toString'', JNum 1)])]"
      "API (browser (\<lambda>i. \<lparr>delay = 80, outcome = Fails ''Failed to fetch''\<rparr>))"
      "JStr ''P''" "JNum 2304" "JNum 1" "JStr ''S''" "JStr ''bse_output_source_priority''"
      "JStr ''48''" "Error []" "''Failed to fetch''"]
  by (simp add: API_browser queryString_browser)

text \<open>
  C4 as the specification words it fails on the reads: on a network where every request
  times out, \<^verbatim>\<open>getAccountInfo\<close> has issued one request when it returns its failure,
  30000 ms after the call; there is no second attempt and no backoff delay.
\<close>

theorem read_not_retried_counterexample:
  "length (sent (snd (getAccountInfo
      (API (browser (\<lambda>i. \<lparr>delay = 45000, outcome = Fails ''Failed to fetch''\<rparr>)))))) = 1
   \<and> \<not> success (fst (getAccountInfo
      (API (browser (\<lambda>i. \<lparr>delay = 45000, outcome = Fails ''Failed to fetch''\<rparr>)))))
   \<and> clock (snd (getAccountInfo
      (API (browser (\<lambda>i. \<lparr>delay = 45000, outcome = Fails ''Failed to fetch''\<rparr>)))))
     = clock (API (browser (\<lambda>i. \<lparr>delay = 45000, outcome = Fails ''Failed to fetch''\<rparr>)))
       + 30000"
  by (simp add: getAccountInfo_def request_sent_length request_timeout request_clock_timeout
      request_error_def API_browser queryString_browser)

section \<open>Requests without a session\<close>

text \<open>
  C5, as the client has it. Building a request never looks for a session, and no call
  fails for the want of one. In every state, with a session or without, \<^verbatim>\<open>request\<close>
  issues exactly one HTTP request when the signature can be computed and every parameter
  of the caller (names distinct) can be converted to a string, and none when one of these
  throws; \<^verbatim>\<open>buildParams\<close> throws exactly when the signature does, which is when the
  conversion of the token or of the secret to a string throws or the signed text is not
  a well-formed string. With a session of a string token and a string secret that is
  exactly when the two hold a surrogate without its partner. With no session (token and
  secret \<^verbatim>\<open>null\<close>) \<^verbatim>\<open>isAuthenticated\<close> is false and nothing throws: the parameters
  carry \<^verbatim>\<open>null\<close> as token and, as signature, the SHA-1 of the salt followed by the text
  \<^verbatim>\<open>nullnull\<close>, and \<^verbatim>\<open>request\<close> issues its one HTTP request for every action and all
  parameters that can be converted.
\<close>

theorem request_needs_no_session:
  "(distinct (map fst params) \<longrightarrow>
      length (sent (snd (request action params st))) =
        (if isl (generateSignature (number_toString (clock st)) (token st) (secret st))
            \<or> (\<exists>v \<in> snd ` set params. isl (to_string v))
         then length (sent st) else Suc (length (sent st))))
   \<and> isl (buildParams params st) =
       isl (generateSignature (number_toString (clock st)) (token st) (secret st))
   \<and> isl (generateSignature (number_toString (clock st)) (token st) (secret st)) =
       (isl (to_string (token st)) \<or> isl (to_string (secret st))
        \<or> (\<exists>t s. to_string (token st) = Inr t \<and> to_string (secret st) = Inr s
              \<and> \<not> well_formed (number_toString (clock st) @ t @ s)))
   \<and> (token st = JStr tok \<and> secret st = JStr sec \<longrightarrow>
        isl (buildParams params st) = (\<not> well_formed (tok @ sec)))
   \<and> (token st = JNull \<and> secret st = JNull \<longrightarrow>
        \<not> isAuthenticated st
        \<and> buildParams [] st =
            Inr [(''sign'', JStr (lowercase_hex (digest_bytes
                          (SHA1 (number_toString (clock st) @ ''nullnull''))))),
                 (''salt'', JStr (number_toString (clock st))),
                 (''token'', JNull),
                 (''i18n'', JStr ''en_US''),
                 (''lang'', JStr ''en_US''),
                 (''source'', JStr ''android''),
                 (''_app_client_'', JStr ''android''),
                 (''_app_id_'', JStr ''com.eybond.smartclient.ess''),
                 (''_app_version_'', JStr ''3.43.0.1'')]
        \<and> (distinct (map fst params) \<longrightarrow>
             length (sent (snd (request action params st))) =
               (if \<exists>v \<in> snd ` set params. isl (to_string v) then length (sent st)
                else Suc (length (sent st)))))"
proof (intro conjI impI)
  assume "distinct (map fst params)"
  then show "length (sent (snd (request action params st))) =
        (if isl (generateSignature (number_toString (clock st)) (token st) (secret st))
            \<or> (\<exists>v \<in> snd ` set params. isl (to_string v))
         then length (sent st) else Suc (length (sent st)))"
    by (rule request_count)
next
  show "isl (buildParams params st) =
       isl (generateSignature (number_toString (clock st)) (token st) (secret st))"
    by (rule buildParams_isl)
  show "isl (generateSignature (number_toString (clock st)) (token st) (secret st)) =
       (isl (to_string (token st)) \<or> isl (to_string (secret st))
        \<or> (\<exists>t s. to_string (token st) = Inr t \<and> to_string (secret st) = Inr s
              \<and> \<not> well_formed (number_toString (clock st) @ t @ s)))"
    by (rule signature_isl)
next
  assume "token st = JStr tok \<and> secret st = JStr sec"
  then show "isl (buildParams params st) = (\<not> well_formed (tok @ sec))"
    by (simp add: buildParams_isl signature_with_session)
next
  assume a: "token st = JNull \<and> secret st = JNull"
  then show "\<not> isAuthenticated st" by (simp add: isAuthenticated_def js_and_def)
  from a have "generateSignature (number_toString (clock st)) (token st) (secret st) =
      Inr (lowercase_hex (digest_bytes (SHA1 (number_toString (clock st) @ ''nullnull''))))"
    by (simp add: signature_without_session)
  then have "buildParams [] st =
      Inr (baseParams (lowercase_hex (digest_bytes
                         (SHA1 (number_toString (clock st) @ ''nullnull''))))
             (number_toString (clock st)) st)"
    by (rule buildParams_empty)
  with a show "buildParams [] st =
            Inr [(''sign'', JStr (lowercase_hex (digest_bytes
                          (SHA1 (number_toString (clock st) @ ''nullnull''))))),
                 (''salt'', JStr (number_toString (clock st))),
                 (''token'', JNull),
                 (''i18n'', JStr ''en_US''),
                 (''lang'', JStr ''en_US''),
                 (''source'', JStr ''android''),
                 (''_app_client_'', JStr ''android''),
                 (''_app_id_'', JStr ''com.eybond.smartclient.ess''),
                 (''_app_version_'', JStr ''3.43.0.1'')]"
    by (simp add: baseParams_def)
next
  assume a: "token st = JNull \<and> secret st = JNull" and d: "distinct (map fst params)"
  from a have "isl (queryString action params st)
      = (\<exists>v \<in> snd ` set params. isl (to_string v))"
    using d by (simp add: queryString_no_session)
  then show "length (sent (snd (request action params st))) =
               (if \<exists>v \<in> snd ` set params. isl (to_string v) then length (sent st)
                else Suc (length (sent st)))"
    by (simp only: request_sent_length)
qed

text \<open>
  The theorem in the state in which the script leaves the client, in a state with the
  token \<^verbatim>\<open>T\<close> and the secret \<^verbatim>\<open>S\<close>, and in a state whose token is an object with a
  \<^verbatim>\<open>toString\<close> property, where nothing is sent.
\<close>

theorem request_needs_no_session_witness:
  "\<not> isAuthenticated (API (browser (\<lambda>i. \<lparr>delay = 120, outcome = Fails ''offline''\<rparr>)))
   \<and> length (sent (snd (request ''queryAccountInfo'' []
        (API (browser (\<lambda>i. \<lparr>delay = 120, outcome = Fails ''offline''\<rparr>)))))) = 1
   \<and> \<not> isl (buildParams []
        (API (browser (\<lambda>i. \<lparr>delay = 120, outcome = Fails ''offline''\<rparr>))))
   \<and> length (sent (snd (request ''queryAccountInfo'' []
        ((API (browser (\<lambda>i. \<lparr>delay = 120, outcome = Fails ''offline''\<rparr>)))
           \<lparr>token := JStr ''T'', secret := JStr ''S''\<rparr>)))) = 1
   \<and> length (sent (snd (request ''queryAccountInfo'' []
        ((API (browser (\<lambda>i. \<lparr>delay = 120, outcome = Fails ''offline''\<rparr>)))
           \<lparr>token := JObj [(''toString'', JNum 1)], secret := JStr ''S''\<rparr>)))) = 0"
proof -
  let ?st = "API (browser (\<lambda>i. \<lparr>delay = 120, outcome = Fails ''offline''\<rparr>))"
  note a = request_needs_no_session [of "[]" "''queryAccountInfo''" ?st "''T''" "''S''"]
  note b = request_needs_no_session [of "[]" "''queryAccountInfo''"
      "?st\<lparr>token := JStr ''T'', secret := JStr ''S''\<rparr>" "''T''" "''S''"]
  note c = request_needs_no_session [of "[]" "''queryAccountInfo''"
      "?st\<lparr>token := JObj [(''toString'', JNum 1)], secret := JStr ''S''\<rparr>" "''T''" "''S''"]
  from a have "\<not> isAuthenticated ?st"
    and "length (sent (snd (request ''queryAccountInfo'' [] ?st))) = 1"
    and "\<not> isl (buildParams [] ?st)"
    by (simp_all add: API_browser signature_without_session)
  moreover from b have "length (sent (snd (request ''queryAccountInfo'' []
        (?st\<lparr>token := JStr ''T'', secret := JStr ''S''\<rparr>)))) = 1"
    by (auto simp add: API_browser)
  moreover from c have "length (sent (snd (request ''queryAccountInfo'' []
        (?st\<lparr>token := JObj [(''toString'', JNum 1)], secret := JStr ''S''\<rparr>)))) = 0"
    by (auto simp add: API_browser)
  ultimately show ?thesis by simp
qed

text \<open>
  C5 as the specification words it fails: with no session, \<^verbatim>\<open>queryAccountInfo\<close> is sent
  to the network, and the call returns what the server answers, here a success.
\<close>

theorem no_session_request_sent_counterexample:
  "\<not> isAuthenticated (API (browser (\<lambda>i. \<lparr>delay = 120, outcome = Responds (Body_json
        (JObj [(''err'', JNum 0), (''desc'', JStr ''ok''), (''dat'', JNull)]))\<rparr>)))
   \<and> length (sent (snd (request ''queryAccountInfo'' []
        (API (browser (\<lambda>i. \<lparr>delay = 120, outcome = Responds (Body_json
          (JObj [(''err'', JNum 0), (''desc'', JStr ''ok''), (''dat'', JNull)]))\<rparr>)))))) = 1
   \<and> success (fst (request ''queryAccountInfo'' []
        (API (browser (\<lambda>i. \<lparr>delay = 120, outcome = Responds (Body_json
          (JObj [(''err'', JNum 0), (''desc'', JStr ''ok''), (''dat'', JNull)]))\<rparr>)))))"
  by (subst request_json
        [where d = "JObj [(''err'', JNum 0), (''desc'', JStr ''ok''), (''dat'', JNull)]"])
     (simp_all add: API_browser isAuthenticated_def js_and_def request_sent_length
        queryString_browser)

section \<open>The caller's parameters\<close>

text \<open>
  C6, as the client has it. The parameters of a request that is built (the signature
  \<open>sg\<close> was computed) are the base parameters, then \<^verbatim>\<open>action\<close>, then the caller's
  parameters, each later one replacing an earlier one of the same name. So for a caller's
  object \<open>params\<close> (names distinct) and every name \<open>k\<close>: the request has the caller's
  value where \<open>params\<close> has \<open>k\<close>, whatever \<open>k\<close> is, \<^verbatim>\<open>sign\<close>, \<^verbatim>\<open>salt\<close>, \<^verbatim>\<open>token\<close>
  and \<^verbatim>\<open>action\<close> included; otherwise the action for \<^verbatim>\<open>action\<close>, and otherwise the base
  parameter, which for \<^verbatim>\<open>sign\<close> and \<^verbatim>\<open>salt\<close> is the fresh signature and the fresh
  salt.
\<close>

theorem caller_params_win:
  assumes "distinct (map fst params)"
    and "generateSignature (number_toString (clock st)) (token st) (secret st) = Inr sg"
    and "requestParams action params st = Inr built"
    and "buildParams [] st = Inr base"
  shows "property (JObj built) k =
      (case map_of params k of
         Some v \<Rightarrow> v
       | None \<Rightarrow> if k = ''action'' then JStr action else property (JObj base) k)
    \<and> property (JObj base) ''sign'' = JStr sg
    \<and> property (JObj base) ''salt'' = JStr (number_toString (clock st))"
proof -
  from assms(2,3) have b: "built = spread (baseParams sg (number_toString (clock st)) st)
      (spread [(''action'', JStr action)] params)"
    by (simp add: requestParams_built)
  from assms(2,4) have e: "base = baseParams sg (number_toString (clock st)) st"
    by (simp add: buildParams_empty)
  have "property (JObj built) k =
      (case map_of params k of
         Some v \<Rightarrow> v
       | None \<Rightarrow> if k = ''action'' then JStr action else property (JObj base) k)"
    unfolding b e using assms(1) by (rule property_merged)
  moreover have "property (JObj base) ''sign'' = JStr sg"
    and "property (JObj base) ''salt'' = JStr (number_toString (clock st))"
    by (simp_all add: e baseParams_def)
  ultimately show ?thesis by simp
qed

text \<open>
  The theorem for a caller who passes a plant and a \<^verbatim>\<open>sign\<close>: the request has the
  caller's \<^verbatim>\<open>sign\<close>, the fresh salt and the action.
\<close>

theorem caller_params_win_witness:
  "\<exists>built. requestParams ''queryPlantInfo''
        [(''plantid'', JStr ''7''), (''sign'', JStr ''forged'')]
        (API (browser (\<lambda>i. \<lparr>delay = 120, outcome = Fails ''offline''\<rparr>))) = Inr built
     \<and> property (JObj built) ''sign'' = JStr ''forged''
     \<and> property (JObj built) ''salt'' = JStr (number_toString 1700000000000)
     \<and> property (JObj built) ''action'' = JStr ''queryPlantInfo''"
proof -
  let ?st = "API (browser (\<lambda>i. \<lparr>delay = 120, outcome = Fails ''offline''\<rparr>))"
  let ?p = "[(''plantid'', JStr ''7''), (''sign'', JStr ''forged'')]"
  let ?sg = "lowercase_hex (digest_bytes (SHA1 (number_toString 1700000000000 @ ''nullnull'')))"
  let ?built = "spread (baseParams ?sg (number_toString 1700000000000) ?st)
      (spread [(''action'', JStr ''queryPlantInfo'')] ?p)"
  have d: "distinct (map fst ?p)" by simp
  have g: "generateSignature (number_toString (clock ?st)) (token ?st) (secret ?st) = Inr ?sg"
    by (simp add: API_browser signature_without_session)
  have r: "requestParams ''queryPlantInfo'' ?p ?st = Inr ?built"
    using requestParams_built [OF g, of "''queryPlantInfo''" ?p] by (simp add: API_browser)
  have b: "buildParams [] ?st = Inr (baseParams ?sg (number_toString 1700000000000) ?st)"
    using buildParams_empty [OF g] by (simp add: API_browser)
  note t = caller_params_win [OF d g r b]
  from t [of "''sign''"] t [of "''salt''"] t [of "''action''"]
  have "property (JObj ?built) ''sign'' = JStr ''forged''
     \<and> property (JObj ?built) ''salt'' = JStr (number_toString 1700000000000)
     \<and> property (JObj ?built) ''action'' = JStr ''queryPlantInfo''"
    by (simp add: API_browser del: property.simps)
  with r show ?thesis by blast
qed

text \<open>
  C6 as the specification words it fails: a caller's \<^verbatim>\<open>sign\<close> replaces the signature
  (which has forty characters, so it is not the caller's text).
\<close>

theorem forged_sign_counterexample:
  "(case requestParams ''queryPlantInfo''
           [(''plantid'', JStr ''7''), (''sign'', JStr ''forged'')]
           (API (browser (\<lambda>i. \<lparr>delay = 120, outcome = Fails ''offline''\<rparr>))) of
      Inl e \<Rightarrow> JUndefined
    | Inr built \<Rightarrow> property (JObj built) ''sign'') = JStr ''forged''
   \<and> generateSignature
        (number_toString (clock (API (browser (\<lambda>i. \<lparr>delay = 120, outcome = Fails ''offline''\<rparr>)))))
        (token (API (browser (\<lambda>i. \<lparr>delay = 120, outcome = Fails ''offline''\<rparr>))))
        (secret (API (browser (\<lambda>i. \<lparr>delay = 120, outcome = Fails ''offline''\<rparr>))))
     \<noteq> Inr ''forged''"
proof -
  have "generateSignature s t u \<noteq> Inr ''forged''" for s t u
  proof
    assume "generateSignature s t u = Inr ''forged''"
    then have "length ''forged'' = 40" by (rule length_signature)
    then show False by simp
  qed
  then show ?thesis
    by (simp add: requestParams_no_session API_browser property_merged
        del: property.simps)
qed

section \<open>Identifiers are not validated\<close>

text \<open>
  C8, as the client has it. \<^verbatim>\<open>getDeviceLastData\<close> is \<^verbatim>\<open>request\<close> on the action
  \<^verbatim>\<open>querySPDeviceLastData\<close> with the four identifiers as given, and no identifier is
  looked at before the request is built: the call issues exactly one HTTP request when
  the signature can be computed and the four identifiers can be converted to strings,
  and none when one of these throws. Every string converts, the empty one too: with
  strings for identifiers the call issues its one request whenever the signature can be
  computed, and the \<^verbatim>\<open>sn\<close> parameter of the request is the serial number the method
  was called with. Every other method that takes identifiers issues its request in the
  same way.
\<close>

theorem getDeviceLastData_unvalidated:
  "getDeviceLastData pn devcode devaddr sn st =
     request ''querySPDeviceLastData''
       [(''pn'', pn), (''devcode'', devcode), (''devaddr'', devaddr), (''sn'', sn)] st
   \<and> length (sent (snd (getDeviceLastData pn devcode devaddr sn st))) =
       (if isl (generateSignature (number_toString (clock st)) (token st) (secret st))
           \<or> isl (to_string pn) \<or> isl (to_string devcode) \<or> isl (to_string devaddr)
           \<or> isl (to_string sn)
        then length (sent st) else Suc (length (sent st)))
   \<and> length (sent (snd (getDeviceLastData (JStr a) (JStr b) (JStr c) (JStr d) st))) =
       (if isl (generateSignature (number_toString (clock st)) (token st) (secret st))
        then length (sent st) else Suc (length (sent st)))
   \<and> (requestParams ''querySPDeviceLastData''
        [(''pn'', pn), (''devcode'', devcode), (''devaddr'', devaddr), (''sn'', sn)] st
        = Inr built \<longrightarrow> property (JObj built) ''sn'' = sn)
   \<and> length (sent (snd (getPlantInfo plantId st))) =
       (if isl (generateSignature (number_toString (clock st)) (token st) (secret st))
           \<or> isl (to_string plantId)
        then length (sent st) else Suc (length (sent st)))
   \<and> length (sent (snd (getDeviceKeyParameters devcode st))) =
       (if isl (generateSignature (number_toString (clock st)) (token st) (secret st))
           \<or> isl (to_string devcode)
        then length (sent st) else Suc (length (sent st)))
   \<and> length (sent (snd (getDeviceOneDayHistory pn devcode devaddr sn parameter date st))) =
       (if isl (generateSignature (number_toString (clock st)) (token st) (secret st))
           \<or> isl (to_string pn) \<or> isl (to_string devcode) \<or> isl (to_string devaddr)
           \<or> isl (to_string sn) \<or> isl (to_string parameter) \<or> isl (to_string date)
        then length (sent st) else Suc (length (sent st)))
   \<and> length (sent (snd (getDeviceChartFields devcode st))) =
       (if isl (generateSignature (number_toString (clock st)) (token st) (secret st))
           \<or> isl (to_string devcode)
        then length (sent st) else Suc (length (sent st)))
   \<and> length (sent (snd (getCollectorStatus pn st))) =
       (if isl (generateSignature (number_toString (clock st)) (token st) (secret st))
           \<or> isl (to_string pn)
        then length (sent st) else Suc (length (sent st)))
   \<and> length (sent (snd (getDeviceControlFields pn devcode devaddr sn st))) =
       (if isl (generateSignature (number_toString (clock st)) (token st) (secret st))
           \<or> isl (to_string pn) \<or> isl (to_string devcode) \<or> isl (to_string devaddr)
           \<or> isl (to_string sn)
        then length (sent st) else Suc (length (sent st)))"
proof (intro conjI impI)
  show "getDeviceLastData pn devcode devaddr sn st =
     request ''querySPDeviceLastData''
       [(''pn'', pn), (''devcode'', devcode), (''devaddr'', devaddr), (''sn'', sn)] st"
    by (simp add: getDeviceLastData_def)
  show "length (sent (snd (getDeviceLastData pn devcode devaddr sn st))) =
       (if isl (generateSignature (number_toString (clock st)) (token st) (secret st))
           \<or> isl (to_string pn) \<or> isl (to_string devcode) \<or> isl (to_string devaddr)
           \<or> isl (to_string sn)
        then length (sent st) else Suc (length (sent st)))"
    by (simp add: getDeviceLastData_def request_count)
  show "length (sent (snd (getDeviceLastData (JStr a) (JStr b) (JStr c) (JStr d) st))) =
       (if isl (generateSignature (number_toString (clock st)) (token st) (secret st))
        then length (sent st) else Suc (length (sent st)))"
    by (simp add: getDeviceLastData_def request_count)
  show "length (sent (snd (getPlantInfo plantId st))) =
       (if isl (generateSignature (number_toString (clock st)) (token st) (secret st))
           \<or> isl (to_string plantId)
        then length (sent st) else Suc (length (sent st)))"
    by (simp add: getPlantInfo_def request_count)
  show "length (sent (snd (getDeviceKeyParameters devcode st))) =
       (if isl (generateSignature (number_toString (clock st)) (token st) (secret st))
           \<or> isl (to_string devcode)
        then length (sent st) else Suc (length (sent st)))"
    by (simp add: getDeviceKeyParameters_def request_count)
  show "length (sent (snd (getDeviceOneDayHistory pn devcode devaddr sn parameter date st))) =
       (if isl (generateSignature (number_toString (clock st)) (token st) (secret st))
           \<or> isl (to_string pn) \<or> isl (to_string devcode) \<or> isl (to_string devaddr)
           \<or> isl (to_string sn) \<or> isl (to_string parameter) \<or> isl (to_string date)
        then length (sent st) else Suc (length (sent st)))"
    by (simp add: getDeviceOneDayHistory_def request_count)
  show "length (sent (snd (getDeviceChartFields devcode st))) =
       (if isl (generateSignature (number_toString (clock st)) (token st) (secret st))
           \<or> isl (to_string devcode)
        then length (sent st) else Suc (length (sent st)))"
    by (simp add: getDeviceChartFields_def request_count)
  show "length (sent (snd (getCollectorStatus pn st))) =
       (if isl (generateSignature (number_toString (clock st)) (token st) (secret st))
           \<or> isl (to_string pn)
        then length (sent st) else Suc (length (sent st)))"
    by (simp add: getCollectorStatus_def request_count)
  show "length (sent (snd (getDeviceControlFields pn devcode devaddr sn st))) =
       (if isl (generateSignature (number_toString (clock st)) (token st) (secret st))
           \<or> isl (to_string pn) \<or> isl (to_string devcode) \<or> isl (to_string devaddr)
           \<or> isl (to_string sn)
        then length (sent st) else Suc (length (sent st)))"
    by (simp add: getDeviceControlFields_def request_count)
next
  assume r: "requestParams ''querySPDeviceLastData''
        [(''pn'', pn), (''devcode'', devcode), (''devaddr'', devaddr), (''sn'', sn)] st
        = Inr built"
  then have "\<not> isl (generateSignature (number_toString (clock st)) (token st) (secret st))"
    using buildParams_isl [of "spread [(''action'', JStr ''querySPDeviceLastData'')]
        [(''pn'', pn), (''devcode'', devcode), (''devaddr'', devaddr), (''sn'', sn)]" st]
    by (simp add: requestParams_def)
  then obtain sg where
    "generateSignature (number_toString (clock st)) (token st) (secret st) = Inr sg"
    by (cases "generateSignature (number_toString (clock st)) (token st) (secret st)")
       simp_all
  with r have "built = spread (baseParams sg (number_toString (clock st)) st)
      (spread [(''action'', JStr ''querySPDeviceLastData'')]
        [(''pn'', pn), (''devcode'', devcode), (''devaddr'', devaddr), (''sn'', sn)])"
    by (simp add: requestParams_built)
  then show "property (JObj built) ''sn'' = sn"
    by (simp add: property_merged del: property.simps)
qed

text \<open>
  The theorem for a device with an empty serial number, whose one request carries the
  empty serial number, and for a serial number that is an object with a \<^verbatim>\<open>toString\<close>
  property, where nothing is sent.
\<close>

theorem getDeviceLastData_unvalidated_witness:
  "length (sent (snd (getDeviceLastData (JStr ''Q0000000000001'') (JStr ''2304'')
        (JStr ''1'') (JStr '''')
        (API (browser (\<lambda>i. \<lparr>delay = 120, outcome = Fails ''offline''\<rparr>)))))) = 1
   \<and> (\<exists>built. requestParams ''querySPDeviceLastData''
          [(''pn'', JStr ''Q0000000000001''), (''devcode'', JStr ''2304''),
           (''devaddr'', JStr ''1''), (''sn'', JStr '''')]
          (API (browser (\<lambda>i. \<lparr>delay = 120, outcome = Fails ''offline''\<rparr>))) = Inr built
        \<and> property (JObj built) ''sn'' = JStr '''')
   \<and> length (sent (snd (getDeviceLastData (JStr ''Q0000000000001'') (JNum 2304)
        (JNum 1) (JObj [(''toString'', JNum 1)])
        (API (browser (\<lambda>i. \<lparr>delay = 120, outcome = Fails ''offline''\<rparr>)))))) = 0"
proof -
  let ?st = "API (browser (\<lambda>i. \<lparr>delay = 120, outcome = Fails ''offline''\<rparr>))"
  let ?p = "[(''pn'', JStr ''Q0000000000001''), (''devcode'', JStr ''2304''),
           (''devaddr'', JStr ''1''), (''sn'', JStr '''')]"
  obtain built where r: "requestParams ''querySPDeviceLastData'' ?p ?st = Inr built"
    by (simp add: requestParams_no_session API_browser)
  note a = getDeviceLastData_unvalidated [of "JStr ''Q0000000000001''" "JStr ''2304''"
      "JStr ''1''" "JStr ''''" ?st "''Q0000000000001''" "''2304''" "''1''" "''''" built
      "JNull" "JNull" "JNull"]
  note b = getDeviceLastData_unvalidated [of "JStr ''Q0000000000001''" "JNum 2304"
      "JNum 1" "JObj [(''toString'', JNum 1)]" ?st "''Q0000000000001''" "''2304''" "''1''"
      "''''" built "JNull" "JNull" "JNull"]
  from a [THEN conjunct2, THEN conjunct1]
  have "length (sent (snd (getDeviceLastData (JStr ''Q0000000000001'') (JStr ''2304'')
        (JStr ''1'') (JStr '''') ?st))) = 1"
    by (simp add: API_browser signature_without_session)
  moreover from a [THEN conjunct2, THEN conjunct2, THEN conjunct2, THEN conjunct1] r
  have "property (JObj built) ''sn'' = JStr ''''" by (rule mp)
  with r have "\<exists>built. requestParams ''querySPDeviceLastData'' ?p ?st = Inr built
        \<and> property (JObj built) ''sn'' = JStr ''''" by blast
  moreover from b [THEN conjunct2, THEN conjunct1]
  have "length (sent (snd (getDeviceLastData (JStr ''Q0000000000001'')
        (JNum 2304) (JNum 1) (JObj [(''toString'', JNum 1)]) ?st))) = 0"
    by (simp add: API_browser)
  ultimately show ?thesis by blast
qed

text \<open>
  C8 as the specification words it fails: called with an empty serial number,
  \<^verbatim>\<open>getDeviceLastData\<close> has invoked the transport once, not zero times.
\<close>

theorem empty_serial_sent_counterexample:
  "length (sent (snd (getDeviceLastData (JStr ''Q0000000000001'') (JNum 2304) (JNum 1) (JStr '''')
      (API (browser (\<lambda>i. \<lparr>delay = 120, outcome = Fails ''offline''\<rparr>)))))) = 1"
  by (simp add: getDeviceLastData_def request_sent_length queryString_browser API_browser)

section \<open>The salt\<close>

text \<open>
  C9, as the client has it. The salt of a request that is built (where the caller passes
  none) is the decimal numeral of the clock's reading in milliseconds when the request
  is built. Two requests have the same salt exactly when they are built at the same
  reading of the clock: salts differ across different milliseconds, and are equal within
  one.
\<close>

theorem salt_is_clock_reading:
  assumes "''salt'' \<notin> fst ` set p1" and "''salt'' \<notin> fst ` set p2"
    and "buildParams p1 st1 = Inr b1" and "buildParams p2 st2 = Inr b2"
  shows "property (JObj b1) ''salt'' = JStr (number_toString (clock st1))
    \<and> ((property (JObj b1) ''salt'' = property (JObj b2) ''salt'') = (clock st1 = clock st2))"
proof -
  have salt: "property (JObj b) ''salt'' = JStr (number_toString (clock st))"
    if "''salt'' \<notin> fst ` set p" and "buildParams p st = Inr b" for p st b
  proof -
    from that(2) obtain sg where "b = spread (baseParams sg (number_toString (clock st)) st) p"
      by (auto simp: buildParams_def Let_def split: sum.splits)
    with that(1) show ?thesis
      by (simp add: lookup_absent distinct_baseParams) (simp add: baseParams_def)
  qed
  have "(number_toString a = number_toString b) = (a = b)" for a b
    using number_toString_inj by blast
  with salt [OF assms(1,3)] salt [OF assms(2,4)] show ?thesis by simp
qed

text \<open>
  The theorem for two requests built 120 ms apart, before and after a call that the
  network answered after 120 ms.
\<close>

theorem salt_is_clock_reading_witness:
  "\<exists>b1 b2.
     buildParams [(''action'', JStr ''queryAccountInfo'')]
       (API (browser (\<lambda>i. \<lparr>delay = 120, outcome = Fails ''offline''\<rparr>))) = Inr b1
     \<and> buildParams [(''action'', JStr ''queryAccountInfo'')]
         (snd (request ''queryAccountInfo'' []
           (API (browser (\<lambda>i. \<lparr>delay = 120, outcome = Fails ''offline''\<rparr>))))) = Inr b2
     \<and> property (JObj b1) ''salt'' = JStr (number_toString 1700000000000)
     \<and> property (JObj b1) ''salt'' \<noteq> property (JObj b2) ''salt''"
proof -
  let ?st = "API (browser (\<lambda>i. \<lparr>delay = 120, outcome = Fails ''offline''\<rparr>))"
  let ?st2 = "snd (request ''queryAccountInfo'' [] ?st)"
  let ?p = "[(''action'', JStr ''queryAccountInfo'')]"
  have "\<not> isl (buildParams ?p ?st)"
    by (simp add: buildParams_isl API_browser signature_without_session)
  then obtain b1 where b1: "buildParams ?p ?st = Inr b1"
    by (cases "buildParams ?p ?st") simp_all
  have "\<not> isl (buildParams ?p ?st2)"
    by (simp add: buildParams_isl request_session API_browser signature_without_session)
  then obtain b2 where b2: "buildParams ?p ?st2 = Inr b2"
    by (cases "buildParams ?p ?st2") simp_all
  have c: "clock ?st2 \<noteq> clock ?st"
    by (simp add: request_clock_fails [where m = "''offline''"] queryString_browser API_browser)
  have k: "''salt'' \<notin> fst ` set ?p" by simp
  note t = salt_is_clock_reading [OF k k b1 b2]
  from t have "property (JObj b1) ''salt'' = JStr (number_toString (clock ?st))"
    by (rule conjunct1)
  then have a: "property (JObj b1) ''salt'' = JStr (number_toString 1700000000000)"
    by (simp only: API_browser)
  from t have "(property (JObj b1) ''salt'' = property (JObj b2) ''salt'')
      = (clock ?st = clock ?st2)"
    by (rule conjunct2)
  with c have b: "property (JObj b1) ''salt'' \<noteq> property (JObj b2) ''salt''"
    by metis
  from b1 b2 a b show ?thesis by blast
qed

text \<open>
  C9 as the specification words it fails: two consecutive calls have the same salt when
  the first one is answered within the millisecond. (\<^verbatim>\<open>Dashboard.loadDeviceData\<close> starts
  one \<^verbatim>\<open>getDeviceLastData\<close> for every device in the same turn of the event loop.)
\<close>

theorem salt_reused_counterexample:
  "(case requestParams ''queryAccountInfo'' []
           (API (browser (\<lambda>i. \<lparr>delay = 0, outcome = Fails ''offline''\<rparr>))) of
      Inl e \<Rightarrow> JUndefined
    | Inr built \<Rightarrow> property (JObj built) ''salt'') = JStr (number_toString 1700000000000)
   \<and> (case requestParams ''queryPlantInfo'' [(''plantid'', JStr ''7'')]
           (snd (request ''queryAccountInfo'' []
             (API (browser (\<lambda>i. \<lparr>delay = 0, outcome = Fails ''offline''\<rparr>))))) of
      Inl e \<Rightarrow> JUndefined
    | Inr built \<Rightarrow> property (JObj built) ''salt'') = JStr (number_toString 1700000000000)"
proof -
  let ?st = "API (browser (\<lambda>i. \<lparr>delay = 0, outcome = Fails ''offline''\<rparr>))"
  let ?st2 = "snd (request ''queryAccountInfo'' [] ?st)"
  have c: "clock ?st2 = 1700000000000"
    by (simp add: request_clock_fails [where m = "''offline''"] queryString_browser API_browser)
  have "token ?st2 = JNull" and "secret ?st2 = JNull"
    by (simp_all add: request_session API_browser)
  then have "requestParams ''queryPlantInfo'' [(''plantid'', JStr ''7'')] ?st2 =
     Inr (spread (baseParams
                    (lowercase_hex (digest_bytes (SHA1 (number_toString (clock ?st2) @ ''nullnull''))))
                    (number_toString (clock ?st2)) ?st2)
            (spread [(''action'', JStr ''queryPlantInfo'')] [(''plantid'', JStr ''7'')]))"
    by (rule requestParams_no_session)
  then show ?thesis
    by (simp add: c requestParams_no_session API_browser property_merged del: property.simps)
       (simp add: baseParams_def)
qed

section \<open>Login and the session store\<close>

text \<open>
  C3, as the client has it. For a login whose response body is a JSON value \<open>d\<close> other
  than \<^verbatim>\<open>null\<close>: when \<open>d.err\<close> is 0 and the payload \<open>d.dat\<close> is truthy (an object with
  \<^verbatim>\<open>token\<close>, \<^verbatim>\<open>secret\<close> and \<^verbatim>\<open>userid\<close>, say), the call succeeds with the payload,
  the client holds exactly the payload's token and secret, with the clock's reading
  (after the response has come and its body has been read) as \<^verbatim>\<open>authTime\<close>, and the
  stored credentials are exactly token, secret, authTime, the
  payload's user id and the email, provided the browser's storage takes the write; when
  it refuses (\<^verbatim>\<open>storage_full\<close>), the storage stays as it was. In every other case of
  such a body the call fails with the server's description, or with \<^verbatim>\<open>Login failed\<close>
  when the description is empty or missing; when \<^verbatim>\<open>fetch\<close> rejects, the call fails with
  the rejection's message, or \<^verbatim>\<open>Login failed\<close> when that is empty. A failed call leaves
  token, secret, authTime and the storage untouched.
\<close>

theorem login_session_store:
  "(outcome (net st (length (sent st))) = Responds (Body_json d)
      \<and> d \<noteq> JNull \<and> d \<noteq> JUndefined
      \<and> property d ''err'' = JNum 0 \<and> truthy (property d ''dat'') \<longrightarrow>
    fst (login email password st) =
      \<lparr>success = True, data = property d ''dat'', message = JUndefined, error = JUndefined\<rparr>
    \<and> token (snd (login email password st)) = property (property d ''dat'') ''token''
    \<and> secret (snd (login email password st)) = property (property d ''dat'') ''secret''
    \<and> clock (snd (login email password st)) =
        clock st + int (delay (net st (length (sent st))))
          + int (body_time st (length (sent st)))
    \<and> authTime (snd (login email password st)) = JNum (clock (snd (login email password st)))
    \<and> localStorage (snd (login email password st)) =
        (if storage_full st then localStorage st
         else (localStorage st)(''api_credentials'' \<mapsto> json_item (JObj
                [(''token'', property (property d ''dat'') ''token''),
                 (''secret'', property (property d ''dat'') ''secret''),
                 (''authTime'', JNum (clock (snd (login email password st)))),
                 (''userid'', property (property d ''dat'') ''userid''),
                 (''email'', JStr email)]))))
   \<and> (outcome (net st (length (sent st))) = Responds (Body_json d)
      \<and> d \<noteq> JNull \<and> d \<noteq> JUndefined
      \<and> \<not> (property d ''err'' = JNum 0 \<and> truthy (property d ''dat'')) \<longrightarrow>
    \<not> success (fst (login email password st))
    \<and> error (fst (login email password st)) =
        (if truthy (property d ''desc'') then property d ''desc'' else JStr ''Login failed'')
    \<and> token (snd (login email password st)) = token st
    \<and> secret (snd (login email password st)) = secret st
    \<and> authTime (snd (login email password st)) = authTime st
    \<and> localStorage (snd (login email password st)) = localStorage st)
   \<and> (outcome (net st (length (sent st))) = Fails m \<longrightarrow>
    \<not> success (fst (login email password st))
    \<and> error (fst (login email password st)) = JStr (if m = [] then ''Login failed'' else m)
    \<and> token (snd (login email password st)) = token st
    \<and> secret (snd (login email password st)) = secret st
    \<and> authTime (snd (login email password st)) = authTime st
    \<and> localStorage (snd (login email password st)) = localStorage st)"
proof (intro conjI impI)
  assume a: "outcome (net st (length (sent st))) = Responds (Body_json d)
      \<and> d \<noteq> JNull \<and> d \<noteq> JUndefined
      \<and> property d ''err'' = JNum 0 \<and> truthy (property d ''dat'')"
  then have o: "outcome (net st (length (sent st))) = Responds (Body_json d)"
    and n: "d \<noteq> JNull" and u: "d \<noteq> JUndefined"
    and e: "property d ''err'' = JNum 0" and t: "truthy (property d ''dat'')"
    by simp_all
  note acc = login_accepted [OF o n u e t, of email password]
  show "fst (login email password st) =
      \<lparr>success = True, data = property d ''dat'', message = JUndefined, error = JUndefined\<rparr>"
    by (rule acc(1))
  show "token (snd (login email password st)) = property (property d ''dat'') ''token''"
    by (rule acc(2))
  show "secret (snd (login email password st)) = property (property d ''dat'') ''secret''"
    by (rule acc(3))
  show "clock (snd (login email password st)) =
        clock st + int (delay (net st (length (sent st))))
          + int (body_time st (length (sent st)))"
    by (rule acc(4))
  show "authTime (snd (login email password st)) = JNum (clock (snd (login email password st)))"
    by (simp only: acc(4) acc(5))
  show "localStorage (snd (login email password st)) =
        (if storage_full st then localStorage st
         else (localStorage st)(''api_credentials'' \<mapsto> json_item (JObj
                [(''token'', property (property d ''dat'') ''token''),
                 (''secret'', property (property d ''dat'') ''secret''),
                 (''authTime'', JNum (clock (snd (login email password st)))),
                 (''userid'', property (property d ''dat'') ''userid''),
                 (''email'', JStr email)])))"
    by (simp only: acc(4) acc(6))
next
  assume a: "outcome (net st (length (sent st))) = Responds (Body_json d)
      \<and> d \<noteq> JNull \<and> d \<noteq> JUndefined
      \<and> \<not> (property d ''err'' = JNum 0 \<and> truthy (property d ''dat''))"
  then have o: "outcome (net st (length (sent st))) = Responds (Body_json d)"
    and n: "d \<noteq> JNull" and u: "d \<noteq> JUndefined"
    and e: "\<not> (property d ''err'' = JNum 0 \<and> truthy (property d ''dat''))"
    by blast+
  note r = login_rejected [OF o n u e, of email password]
  show "\<not> success (fst (login email password st))" by (simp add: r)
  show "error (fst (login email password st)) =
        (if truthy (property d ''desc'') then property d ''desc'' else JStr ''Login failed'')"
    by (simp add: r js_or_def)
  show "token (snd (login email password st)) = token st" by (rule r)
  show "secret (snd (login email password st)) = secret st" by (rule r)
  show "authTime (snd (login email password st)) = authTime st" by (rule r)
  show "localStorage (snd (login email password st)) = localStorage st" by (rule r)
next
  assume a: "outcome (net st (length (sent st))) = Fails m"
  note r = login_fails [OF a, of email password]
  show "\<not> success (fst (login email password st))" by (simp add: r login_error_def)
  show "error (fst (login email password st)) = JStr (if m = [] then ''Login failed'' else m)"
    by (simp add: r login_error_def js_or_def)
  show "token (snd (login email password st)) = token st" by (rule r)
  show "secret (snd (login email password st)) = secret st" by (rule r)
  show "authTime (snd (login email password st)) = authTime st" by (rule r)
  show "localStorage (snd (login email password st)) = localStorage st" by (rule r)
qed

text \<open>
  The theorem on the server's answers
  \<^verbatim>\<open>{"err":0,"desc":"ok","dat":{"token":"T","secret":"S","userid":"U1"}}\<close> and
  \<^verbatim>\<open>{"err":1,"desc":"invalid credentials","dat":null}\<close>, and on a rejected fetch.
\<close>

theorem login_session_store_witness:
  "token (snd (login ''user@example.com'' ''secret''
      (API (browser (\<lambda>i. \<lparr>delay = 250, outcome = Responds (Body_json
        (JObj [(''err'', JNum 0), (''desc'', JStr ''ok''),
               (''dat'', JObj [(''token'', JStr ''T''), (''secret'', JStr ''S''),
                               (''userid'', JStr ''U1'')])]))\<rparr>))))) = JStr ''T''
   \<and> secret (snd (login ''user@example.com'' ''secret''
      (API (browser (\<lambda>i. \<lparr>delay = 250, outcome = Responds (Body_json
        (JObj [(''err'', JNum 0), (''desc'', JStr ''ok''),
               (''dat'', JObj [(''token'', JStr ''T''), (''secret'', JStr ''S''),
                               (''userid'', JStr ''U1'')])]))\<rparr>))))) = JStr ''S''
   \<and> getStoredCredentials (snd (login ''user@example.com'' ''secret''
      (API (browser (\<lambda>i. \<lparr>delay = 250, outcome = Responds (Body_json
        (JObj [(''err'', JNum 0), (''desc'', JStr ''ok''),
               (''dat'', JObj [(''token'', JStr ''T''), (''secret'', JStr ''S''),
                               (''userid'', JStr ''U1'')])]))\<rparr>))))) =
       JObj [(''token'', JStr ''T''), (''secret'', JStr ''S''),
             (''authTime'', JNum 1700000000250), (''userid'', JStr ''U1''),
             (''email'', JStr ''user@example.com'')]
   \<and> error (fst (login ''user@example.com'' ''secret''
      (API (browser (\<lambda>i. \<lparr>delay = 250, outcome = Responds (Body_json
        (JObj [(''err'', JNum 1), (''desc'', JStr ''invalid credentials''),
               (''dat'', JNull)]))\<rparr>))))) = JStr ''invalid credentials''
   \<and> token (snd (login ''user@example.com'' ''secret''
      (API (browser (\<lambda>i. \<lparr>delay = 250, outcome = Responds (Body_json
        (JObj [(''err'', JNum 1), (''desc'', JStr ''invalid credentials''),
               (''dat'', JNull)]))\<rparr>))))) = JNull
   \<and> getStoredCredentials (snd (login ''user@example.com'' ''secret''
      (API (browser (\<lambda>i. \<lparr>delay = 250, outcome = Responds (Body_json
        (JObj [(''err'', JNum 1), (''desc'', JStr ''invalid credentials''),
               (''dat'', JNull)]))\<rparr>))))) = JObj []
   \<and> error (fst (login ''user@example.com'' ''secret''
      (API (browser (\<lambda>i. \<lparr>delay = 250, outcome = Fails ''Failed to fetch''\<rparr>)))))
       = JStr ''Failed to fetch''
   \<and> secret (snd (login ''user@example.com'' ''secret''
      (API (browser (\<lambda>i. \<lparr>delay = 250, outcome = Fails ''Failed to fetch''\<rparr>))))) = JNull"
  using
    login_session_store [of
      "API (browser (\<lambda>i. \<lparr>delay = 250, outcome = Responds (Body_json
        (JObj [(''err'', JNum 0), (''desc'', JStr ''ok''),
               (''dat'', JObj [(''token'', JStr ''T''), (''secret'', JStr ''S''),
                               (''userid'', JStr ''U1'')])]))\<rparr>))"
      "JObj [(''err'', JNum 0), (''desc'', JStr ''ok''),
               (''dat'', JObj [(''token'', JStr ''T''), (''secret'', JStr ''S''),
                               (''userid'', JStr ''U1'')])]"
      "''user@example.com''" "''secret''" "[]"]
    login_session_store [of
      "API (browser (\<lambda>i. \<lparr>delay = 250, outcome = Responds (Body_json
        (JObj [(''err'', JNum 1), (''desc'', JStr ''invalid credentials''),
               (''dat'', JNull)]))\<rparr>))"
      "JObj [(''err'', JNum 1), (''desc'', JStr ''invalid credentials''), (''dat'', JNull)]"
      "''user@example.com''" "''secret''" "[]"]
    login_session_store [of
      "API (browser (\<lambda>i. \<lparr>delay = 250, outcome = Fails ''Failed to fetch''\<rparr>))"
      "JNull" "''user@example.com''" "''secret''" "''Failed to fetch''"]
  by (simp add: API_browser getStoredCredentials_def getLocalStorage_def json_item_def)

text \<open>
  C3 as the specification words it fails in two places. A failure envelope with an empty
  description gives the error \<^verbatim>\<open>Login failed\<close>, not the server's description. And a
  successful login in a browser whose storage refuses the write leaves no stored
  credentials, so the user id is held nowhere.
\<close>

theorem login_claim_counterexample:
  "error (fst (login ''user@example.com'' ''secret''
      (API (browser (\<lambda>i. \<lparr>delay = 250, outcome = Responds (Body_json
        (JObj [(''err'', JNum 1), (''desc'', JStr ''''), (''dat'', JNull)]))\<rparr>)))))
     = JStr ''Login failed''
   \<and> property (JObj [(''err'', JNum 1), (''desc'', JStr ''''), (''dat'', JNull)]) ''desc''
     = JStr ''''
   \<and> success (fst (login ''user@example.com'' ''secret''
      ((API (browser (\<lambda>i. \<lparr>delay = 250, outcome = Responds (Body_json
        (JObj [(''err'', JNum 0), (''desc'', JStr ''ok''),
               (''dat'', JObj [(''token'', JStr ''T''), (''secret'', JStr ''S''),
                               (''userid'', JStr ''U1'')])]))\<rparr>)))
         \<lparr>storage_full := True\<rparr>)))
   \<and> getStoredCredentials (snd (login ''user@example.com'' ''secret''
      ((API (browser (\<lambda>i. \<lparr>delay = 250, outcome = Responds (Body_json
        (JObj [(''err'', JNum 0), (''desc'', JStr ''ok''),
               (''dat'', JObj [(''token'', JStr ''T''), (''secret'', JStr ''S''),
                               (''userid'', JStr ''U1'')])]))\<rparr>)))
         \<lparr>storage_full := True\<rparr>))) = JObj []"
proof -
  let ?bad = "JObj [(''err'', JNum 1), (''desc'', JStr ''''), (''dat'', JNull)]"
  let ?good = "JObj [(''err'', JNum 0), (''desc'', JStr ''ok''),
               (''dat'', JObj [(''token'', JStr ''T''), (''secret'', JStr ''S''),
                               (''userid'', JStr ''U1'')])]"
  let ?st1 = "API (browser (\<lambda>i. \<lparr>delay = 250, outcome = Responds (Body_json ?bad)\<rparr>))"
  let ?st2 = "(API (browser (\<lambda>i. \<lparr>delay = 250, outcome = Responds (Body_json ?good)\<rparr>)))
         \<lparr>storage_full := True\<rparr>"
  have "fst (login ''user@example.com'' ''secret'' ?st1) =
      \<lparr>success = False, data = JUndefined, message = JUndefined,
       error = js_or (property ?bad ''desc'') (JStr ''Login failed'')\<rparr>"
    by (rule login_rejected) (simp_all add: API_browser)
  then have a: "error (fst (login ''user@example.com'' ''secret'' ?st1)) = JStr ''Login failed''"
    by (simp add: js_or_def)
  have "fst (login ''user@example.com'' ''secret'' ?st2) =
      \<lparr>success = True, data = property ?good ''dat'', message = JUndefined,
       error = JUndefined\<rparr>"
    by (rule login_accepted) (simp_all add: API_browser)
  then have b: "success (fst (login ''user@example.com'' ''secret'' ?st2))" by simp
  have "localStorage (snd (login ''user@example.com'' ''secret'' ?st2)) =
      (if storage_full ?st2 then localStorage ?st2
       else (localStorage ?st2)(''api_credentials'' \<mapsto> json_item (JObj
              [(''token'', property (property ?good ''dat'') ''token''),
               (''secret'', property (property ?good ''dat'') ''secret''),
               (''authTime'', JNum (clock ?st2 + int (delay (net ?st2 (length (sent ?st2))))
                                     + int (body_time ?st2 (length (sent ?st2))))),
               (''userid'', property (property ?good ''dat'') ''userid''),
               (''email'', JStr ''user@example.com'')])))"
    by (rule login_accepted) (simp_all add: API_browser)
  then have c: "getStoredCredentials (snd (login ''user@example.com'' ''secret'' ?st2)) = JObj []"
    by (simp add: getStoredCredentials_def getLocalStorage_def API_browser)
  from a b c show ?thesis by simp
qed

section \<open>Token and secret together\<close>

text \<open>
  C7, as the client has it. Take any run of \<^verbatim>\<open>init\<close>, \<^verbatim>\<open>login\<close> and \<^verbatim>\<open>logout\<close> from the
  state in which the script leaves the client, in a browser where every successful login
  answer (error code 0, truthy payload) has a payload whose \<^verbatim>\<open>token\<close> and \<^verbatim>\<open>secret\<close> are
  both present or both absent. Then in the state the run reaches, the client's token and
  secret are both present or both absent.
\<close>

theorem session_token_secret_paired:
  assumes "\<And>i d. outcome (net b i) = Responds (Body_json d) \<Longrightarrow>
      property d ''err'' = JNum 0 \<Longrightarrow> truthy (property d ''dat'') \<Longrightarrow>
      present (property (property d ''dat'') ''token'')
        = present (property (property d ''dat'') ''secret'')"
  shows "present (token (run ops (API b))) = present (secret (run ops (API b)))"
proof (rule run_paired)
  show "present (token (API b)) = present (secret (API b))" by (simp add: API_def)
next
  fix i d
  assume "outcome (net (API b) i) = Responds (Body_json d)"
    and "property d ''err'' = JNum 0" and "truthy (property d ''dat'')"
  then show "present (property (property d ''dat'') ''token'')
        = present (property (property d ''dat'') ''secret'')"
    using assms by (simp add: API_def)
qed

text \<open>The theorem on a run that loads the stored session and logs in.\<close>

theorem session_token_secret_paired_witness:
  "present (token (run [Init None, Login ''user@example.com'' ''secret'']
      (API (browser (\<lambda>i. \<lparr>delay = 250, outcome = Responds (Body_json
        (JObj [(''err'', JNum 0), (''desc'', JStr ''ok''),
               (''dat'', JObj [(''token'', JStr ''T''), (''secret'', JStr ''S''),
                               (''userid'', JStr ''U1'')])]))\<rparr>)))))
   = present (secret (run [Init None, Login ''user@example.com'' ''secret'']
      (API (browser (\<lambda>i. \<lparr>delay = 250, outcome = Responds (Body_json
        (JObj [(''err'', JNum 0), (''desc'', JStr ''ok''),
               (''dat'', JObj [(''token'', JStr ''T''), (''secret'', JStr ''S''),
                               (''userid'', JStr ''U1'')])]))\<rparr>)))))
   \<and> token (run [Init None, Login ''user@example.com'' ''secret'']
      (API (browser (\<lambda>i. \<lparr>delay = 250, outcome = Responds (Body_json
        (JObj [(''err'', JNum 0), (''desc'', JStr ''ok''),
               (''dat'', JObj [(''token'', JStr ''T''), (''secret'', JStr ''S''),
                               (''userid'', JStr ''U1'')])]))\<rparr>)))) = JStr ''T''"
proof -
  let ?n = "\<lambda>i::nat. \<lparr>delay = 250, outcome = Responds (Body_json
        (JObj [(''err'', JNum 0), (''desc'', JStr ''ok''),
               (''dat'', JObj [(''token'', JStr ''T''), (''secret'', JStr ''S''),
                               (''userid'', JStr ''U1'')])]))\<rparr>"
  have p: "present (property (property d ''dat'') ''token'')
        = present (property (property d ''dat'') ''secret'')"
    if "outcome (net (browser ?n) i) = Responds (Body_json d)" for i d
    using that by (auto simp: browser_def present_def)
  have "present (token (run [Init None, Login ''user@example.com'' ''secret''] (API (browser ?n))))
      = present (secret (run [Init None, Login ''user@example.com'' ''secret''] (API (browser ?n))))"
    by (rule session_token_secret_paired) (rule p)
  moreover have "token (run [Init None, Login ''user@example.com'' ''secret'']
      (API (browser ?n))) = JStr ''T''"
  proof -
    have i: "snd (init None (API (browser ?n))) = API (browser ?n)"
      by (simp add: init_def getLocalStorage_def get_member_def js_and_def Let_def
          API_browser)
    have "token (snd (login ''user@example.com'' ''secret'' (API (browser ?n))))
        = property (property (JObj [(''err'', JNum 0), (''desc'', JStr ''ok''),
               (''dat'', JObj [(''token'', JStr ''T''), (''secret'', JStr ''S''),
                               (''userid'', JStr ''U1'')])]) ''dat'') ''token''"
      by (rule login_accepted) (simp_all add: API_browser)
    then show ?thesis by (simp add: run_def i)
  qed
  ultimately show ?thesis by (rule conjI)
qed

text \<open>
  C7 as the specification words it fails: \<^verbatim>\<open>login\<close> adopts the payload's fields without
  looking at them (\<^verbatim>\<open>init\<close> adopts stored credentials only when both are truthy), so
  the answer \<^verbatim>\<open>{"err":0,"desc":"ok","dat":{"token":"T"}}\<close> leaves the client with a token
  and no secret.
\<close>

theorem partial_session_counterexample:
  "token (run [Login ''user@example.com'' ''secret'']
      (API (browser (\<lambda>i. \<lparr>delay = 250, outcome = Responds (Body_json
        (JObj [(''err'', JNum 0), (''desc'', JStr ''ok''),
               (''dat'', JObj [(''token'', JStr ''T'')])]))\<rparr>)))) = JStr ''T''
   \<and> secret (run [Login ''user@example.com'' ''secret'']
      (API (browser (\<lambda>i. \<lparr>delay = 250, outcome = Responds (Body_json
        (JObj [(''err'', JNum 0), (''desc'', JStr ''ok''),
               (''dat'', JObj [(''token'', JStr ''T'')])]))\<rparr>)))) = JUndefined"
proof -
  let ?d = "JObj [(''err'', JNum 0), (''desc'', JStr ''ok''),
               (''dat'', JObj [(''token'', JStr ''T'')])]"
  let ?st = "API (browser (\<lambda>i. \<lparr>delay = 250, outcome = Responds (Body_json ?d)\<rparr>))"
  have "token (snd (login ''user@example.com'' ''secret'' ?st))
        = property (property ?d ''dat'') ''token''"
    by (rule login_accepted) (simp_all add: API_browser)
  moreover have "secret (snd (login ''user@example.com'' ''secret'' ?st))
        = property (property ?d ''dat'') ''secret''"
    by (rule login_accepted) (simp_all add: API_browser)
  ultimately show ?thesis by (simp add: run_def)
qed

section \<open>Login, then logout\<close>

text \<open>
  C10. From a state with no session (token, secret and authTime \<^verbatim>\<open>null\<close>, no stored
  credentials), a login followed at once by a logout leaves token, secret, authTime and
  the whole storage as they were before the login, whatever the server answered, a
  successful login in particular. And \<^verbatim>\<open>logout\<close> in any state \<open>s\<close> clears the three
  fields and the stored credentials, and sends nothing to the network: there is no remote
  outcome it could depend on.
\<close>

theorem login_logout_round_trip:
  assumes "token st = JNull" and "secret st = JNull" and "authTime st = JNull"
    and "localStorage st ''api_credentials'' = None"
  shows "token (logout (snd (login email password st))) = token st
    \<and> secret (logout (snd (login email password st))) = secret st
    \<and> authTime (logout (snd (login email password st))) = authTime st
    \<and> localStorage (logout (snd (login email password st))) = localStorage st
    \<and> token (logout s) = JNull \<and> secret (logout s) = JNull \<and> authTime (logout s) = JNull
    \<and> localStorage (logout s) ''api_credentials'' = None
    \<and> sent (logout s) = sent s"
proof -
  have "localStorage (snd (login email password st)) = localStorage st
      \<or> (\<exists>v. localStorage (snd (login email password st))
            = (localStorage st)(''api_credentials'' \<mapsto> v))"
    by (rule login_storage)
  with assms(4) have "(localStorage (snd (login email password st)))(''api_credentials'' := None)
      = localStorage st"
    by (auto simp: fun_eq_iff)
  with assms show ?thesis by (simp add: logout_fields)
qed

text \<open>The theorem on a successful login.\<close>

theorem login_logout_round_trip_witness:
  "success (fst (login ''user@example.com'' ''secret''
      (API (browser (\<lambda>i. \<lparr>delay = 250, outcome = Responds (Body_json
        (JObj [(''err'', JNum 0), (''desc'', JStr ''ok''),
               (''dat'', JObj [(''token'', JStr ''T''), (''secret'', JStr ''S''),
                               (''userid'', JStr ''U1'')])]))\<rparr>)))))
   \<and> token (logout (snd (login ''user@example.com'' ''secret''
      (API (browser (\<lambda>i. \<lparr>delay = 250, outcome = Responds (Body_json
        (JObj [(''err'', JNum 0), (''desc'', JStr ''ok''),
               (''dat'', JObj [(''token'', JStr ''T''), (''secret'', JStr ''S''),
                               (''userid'', JStr ''U1'')])]))\<rparr>)))))) = JNull
   \<and> secret (logout (snd (login ''user@example.com'' ''secret''
      (API (browser (\<lambda>i. \<lparr>delay = 250, outcome = Responds (Body_json
        (JObj [(''err'', JNum 0), (''desc'', JStr ''ok''),
               (''dat'', JObj [(''token'', JStr ''T''), (''secret'', JStr ''S''),
                               (''userid'', JStr ''U1'')])]))\<rparr>)))))) = JNull
   \<and> authTime (logout (snd (login ''user@example.com'' ''secret''
      (API (browser (\<lambda>i. \<lparr>delay = 250, outcome = Responds (Body_json
        (JObj [(''err'', JNum 0), (''desc'', JStr ''ok''),
               (''dat'', JObj [(''token'', JStr ''T''), (''secret'', JStr ''S''),
                               (''userid'', JStr ''U1'')])]))\<rparr>)))))) = JNull
   \<and> localStorage (logout (snd (login ''user@example.com'' ''secret''
      (API (browser (\<lambda>i. \<lparr>delay = 250, outcome = Responds (Body_json
        (JObj [(''err'', JNum 0), (''desc'', JStr ''ok''),
               (''dat'', JObj [(''token'', JStr ''T''), (''secret'', JStr ''S''),
                               (''userid'', JStr ''U1'')])]))\<rparr>)))))) = Map.empty"
proof -
  let ?st = "API (browser (\<lambda>i. \<lparr>delay = 250, outcome = Responds (Body_json
        (JObj [(''err'', JNum 0), (''desc'', JStr ''ok''),
               (''dat'', JObj [(''token'', JStr ''T''), (''secret'', JStr ''S''),
                               (''userid'', JStr ''U1'')])]))\<rparr>))"
  have "fst (login ''user@example.com'' ''secret'' ?st) =
      \<lparr>success = True,
       data = property (JObj [(''err'', JNum 0), (''desc'', JStr ''ok''),
               (''dat'', JObj [(''token'', JStr ''T''), (''secret'', JStr ''S''),
                               (''userid'', JStr ''U1'')])]) ''dat'',
       message = JUndefined, error = JUndefined\<rparr>"
    by (rule login_accepted) (simp_all add: API_browser)
  then have "success (fst (login ''user@example.com'' ''secret'' ?st))" by simp
  moreover note login_logout_round_trip
    [of ?st "''user@example.com''" "''secret''" ?st]
  ultimately show ?thesis by (simp add: API_browser)
qed

end
